theory Spec2Isabelle
  imports Complex_Main "HOL-Library.Word" "HOL-Library.AList" "HOL-Library.Sublist"
begin

unbundle bit_operations_syntax

section \<open>Strings and thrown values\<close>

text \<open>
  A JavaScript string is a sequence of UTF-16 code units. The transcript is the one
  string whose white space matters (\<^verbatim>\<open>transcript.trim()\<close>), so it is kept as a list of
  code units. Strings that are only stored, compared with ASCII literals or concatenated
  (file names, messages, JSON strings, dates) are \<open>string\<close>.
\<close>

type_synonym jsstring = "16 word list"

text \<open>
  The code units \<^verbatim>\<open>String.prototype.trim\<close> strips: ECMAScript's WhiteSpace and
  LineTerminator (TAB, LF, VT, FF, CR, SP, NBSP, U+1680, U+2000 to U+200A, U+2028, U+2029,
  U+202F, U+205F, U+3000, U+FEFF).
\<close>

definition isWhiteSpace :: "16 word \<Rightarrow> bool" where
  "isWhiteSpace c =
     (c \<in> set [0x0009, 0x000A, 0x000B, 0x000C, 0x000D, 0x0020, 0x00A0, 0x1680,
                0x2000, 0x2001, 0x2002, 0x2003, 0x2004, 0x2005, 0x2006, 0x2007,
                0x2008, 0x2009, 0x200A, 0x2028, 0x2029, 0x202F, 0x205F, 0x3000, 0xFEFF])"

definition trim :: "jsstring \<Rightarrow> jsstring" where
  "trim s = rev (dropWhile isWhiteSpace (rev (dropWhile isWhiteSpace s)))"

text \<open>
  What a \<^verbatim>\<open>catch\<close> clause receives: an \<^verbatim>\<open>Error\<close> instance with its message, or any
  other thrown value.
\<close>

datatype thrown = ErrorObj string | NonError

section \<open>services/geminiService.ts: summarizeTranscript\<close>

text \<open>
  \<^verbatim>\<open>JSON.parse\<close> returns an untyped value; the cast \<^verbatim>\<open>as SummaryResult\<close> checks nothing at
  run time. An array is an object and may receive named properties by assignment, so it
  carries a property list beside its elements (empty in everything \<^verbatim>\<open>JSON.parse\<close> returns).
  An object is an association list; the first binding of a key is the property's value.
  \<open>None\<close> of type \<open>json option\<close> is \<^verbatim>\<open>undefined\<close>.
\<close>

datatype json =
    JNull
  | JBool bool
  | JNum real
  | JStr string
  | JArr "json list" "(string \<times> json) list"
  | JObj "(string \<times> json) list"

fun truthy :: "json option \<Rightarrow> bool" where
  "truthy None = False"
| "truthy (Some JNull) = False"
| "truthy (Some (JBool b)) = b"
| "truthy (Some (JNum n)) = (n \<noteq> 0)"
| "truthy (Some (JStr s)) = (s \<noteq> [])"
| "truthy (Some (JArr xs ps)) = True"
| "truthy (Some (JObj ps)) = True"

fun props :: "json \<Rightarrow> (string \<times> json) list" where
  "props (JObj ps) = ps"
| "props (JArr xs ps) = ps"
| "props j = []"

text \<open>
  Reading a property of a value other than \<^verbatim>\<open>null\<close>. The keys read by the code
  (\<^verbatim>\<open>actionItems\<close>, \<^verbatim>\<open>priority\<close>, \<^verbatim>\<open>dueDate\<close>, \<^verbatim>\<open>discussionBreakdown\<close>) are no built-in
  property of a boolean, number, string or array, so there the read is \<^verbatim>\<open>undefined\<close>.
  Reading a property of \<^verbatim>\<open>null\<close> throws; the callers test for \<open>JNull\<close> first.
\<close>

definition getProp :: "json \<Rightarrow> string \<Rightarrow> json option" where
  "getProp j k = map_of (props j) k"

text \<open>
  Assigning a property. The file is an ECMAScript module, hence strict code: assigning
  a property of a boolean, number or string throws a TypeError (\<open>None\<close>).
\<close>

fun setProp :: "json \<Rightarrow> string \<Rightarrow> json \<Rightarrow> json option" where
  "setProp (JObj ps) k v = Some (JObj (AList.update k v ps))"
| "setProp (JArr xs ps) k v = Some (JArr xs (AList.update k v ps))"
| "setProp j k v = None"

text \<open>
  The callback of \<^verbatim>\<open>result.actionItems.forEach\<close>:
  \<^verbatim>\<open>if (!item.priority) item.priority = 'Medium';
  if (item.dueDate === undefined) item.dueDate = '';\<close>
  \<open>None\<close> when it throws.
\<close>

definition fillItem :: "json \<Rightarrow> json option" where
  "fillItem item =
     (if item = JNull then None
      else case (if \<not> truthy (getProp item ''priority'')
                 then setProp item ''priority'' (JStr ''Medium'') else Some item) of
             None \<Rightarrow> None
           | Some item1 \<Rightarrow>
               if getProp item1 ''dueDate'' = None
               then setProp item1 ''dueDate'' (JStr []) else Some item1)"

text \<open>
  The statements between \<^verbatim>\<open>JSON.parse\<close> and \<^verbatim>\<open>return result\<close>. A truthy
  \<^verbatim>\<open>actionItems\<close> that is no array has no \<^verbatim>\<open>forEach\<close>, and the call throws.
\<close>

definition fillActionItems :: "json \<Rightarrow> json option" where
  "fillActionItems result =
     (let actionItems = getProp result ''actionItems'' in
      if truthy actionItems then
        (case actionItems of
           Some (JArr items ps) \<Rightarrow>
             (case those (map fillItem items) of
                None \<Rightarrow> None
              | Some items' \<Rightarrow> setProp result ''actionItems'' (JArr items' ps))
         | _ \<Rightarrow> None)
      else Some result)"

definition fillBreakdown :: "json \<Rightarrow> json option" where
  "fillBreakdown result =
     (if \<not> truthy (getProp result ''discussionBreakdown'')
      then setProp result ''discussionBreakdown'' (JArr [] []) else Some result)"

definition applyFallbacks :: "json \<Rightarrow> json option" where
  "applyFallbacks result =
     (if result = JNull then None
      else case fillActionItems result of
             None \<Rightarrow> None
           | Some r1 \<Rightarrow> fillBreakdown r1)"

text \<open>
  What the request to the model does: \<^verbatim>\<open>generateContent\<close> rejects (network or API
  failure), the response has no text (\<^verbatim>\<open>response.text\<close> is \<^verbatim>\<open>undefined\<close>, so \<^verbatim>\<open>.trim()\<close>
  throws), \<^verbatim>\<open>JSON.parse\<close> throws on the trimmed text, or it returns a value.
\<close>

datatype api_reply = Rejected | NoText | Malformed | Parsed json

definition summarizationError :: thrown where
  "summarizationError =
     ErrorObj ''Failed to get summary from AI. Please check the transcript and try again.''"

text \<open>
  \<open>ai\<close> is the external model: the reply to the prompt built from the transcript and
  the title hint. Every exception inside the \<^verbatim>\<open>try\<close> is replaced by the one error.
\<close>

definition summarizeTranscript ::
  "(jsstring \<Rightarrow> string \<Rightarrow> api_reply) \<Rightarrow> jsstring \<Rightarrow> string \<Rightarrow> thrown + json" where
  "summarizeTranscript ai transcript userTitle =
     (case ai transcript userTitle of
        Rejected \<Rightarrow> Inl summarizationError
      | NoText \<Rightarrow> Inl summarizationError
      | Malformed \<Rightarrow> Inl summarizationError
      | Parsed result \<Rightarrow>
          (case applyFallbacks result of
             None \<Rightarrow> Inl summarizationError
           | Some r \<Rightarrow> Inr r))"

subsection \<open>The response schema\<close>

text \<open>
  \<^verbatim>\<open>responseSchema\<close>, the constant sent with the request, read as a predicate on the parsed
  value: objects with the required properties, each of its declared type.
\<close>

fun isString :: "json option \<Rightarrow> bool" where
  "isString (Some (JStr s)) = True"
| "isString j = False"

fun isStringArray :: "json option \<Rightarrow> bool" where
  "isStringArray (Some (JArr xs ps)) = list_all (\<lambda>x. isString (Some x)) xs"
| "isStringArray j = False"

fun conformsActionItem :: "json \<Rightarrow> bool" where
  "conformsActionItem (JObj ps) =
     (isString (map_of ps ''task'') \<and> isString (map_of ps ''assignee'') \<and>
      isString (map_of ps ''priority'') \<and> isString (map_of ps ''dueDate''))"
| "conformsActionItem j = False"

fun conformsDiscussion :: "json \<Rightarrow> bool" where
  "conformsDiscussion (JObj ps) =
     (isString (map_of ps ''speaker'') \<and> isStringArray (map_of ps ''points''))"
| "conformsDiscussion j = False"

fun isArrayOf :: "(json \<Rightarrow> bool) \<Rightarrow> json option \<Rightarrow> bool" where
  "isArrayOf P (Some (JArr xs ps)) = list_all P xs"
| "isArrayOf P j = False"

fun conformsSchema :: "json \<Rightarrow> bool" where
  "conformsSchema (JObj ps) =
     (isString (map_of ps ''title'') \<and> isString (map_of ps ''shortSummary'') \<and>
      isStringArray (map_of ps ''detailedSummary'') \<and>
      isArrayOf conformsActionItem (map_of ps ''actionItems'') \<and>
      isArrayOf conformsDiscussion (map_of ps ''discussionBreakdown''))"
| "conformsSchema j = False"

subsection \<open>The fills on a schema-complete response\<close>

text \<open>
  In a response that has every required property, the priority and the due date of
  every action item are strings and the discussion breakdown is an array. The one
  fallback that can still apply is the one for a priority that is the empty string:
  it becomes \<^verbatim>\<open>Medium\<close>. This is that replacement, written without the code's tests.
\<close>

fun mediumForEmptyPriority :: "json \<Rightarrow> json" where
  "mediumForEmptyPriority (JObj ps) =
     (if map_of ps ''priority'' = Some (JStr [])
      then JObj (AList.update ''priority'' (JStr ''Medium'') ps) else JObj ps)"
| "mediumForEmptyPriority j = j"

fun withDefaultPriorities :: "json \<Rightarrow> json" where
  "withDefaultPriorities (JObj ps) =
     (case map_of ps ''actionItems'' of
        Some (JArr items aps) \<Rightarrow>
          JObj (AList.update ''actionItems'' (JArr (map mediumForEmptyPriority items) aps) ps)
      | _ \<Rightarrow> JObj ps)"
| "withDefaultPriorities j = j"

subsection \<open>The fills on a response complete but for the fill fields\<close>

text \<open>
  A response that is schema-complete except that a priority, a due date or the discussion
  breakdown may be missing: every other required property is there with its type, a
  priority or due date that is there is a string, a breakdown that is there conforms.
\<close>

fun optionalString :: "json option \<Rightarrow> bool" where
  "optionalString None = True"
| "optionalString (Some (JStr s)) = True"
| "optionalString j = False"

fun completeButFillsItem :: "json \<Rightarrow> bool" where
  "completeButFillsItem (JObj ps) =
     (isString (map_of ps ''task'') \<and> isString (map_of ps ''assignee'') \<and>
      optionalString (map_of ps ''priority'') \<and> optionalString (map_of ps ''dueDate''))"
| "completeButFillsItem j = False"

fun completeButFills :: "json \<Rightarrow> bool" where
  "completeButFills (JObj ps) =
     (isString (map_of ps ''title'') \<and> isString (map_of ps ''shortSummary'') \<and>
      isStringArray (map_of ps ''detailedSummary'') \<and>
      isArrayOf completeButFillsItem (map_of ps ''actionItems'') \<and>
      (map_of ps ''discussionBreakdown'' = None \<or>
       isArrayOf conformsDiscussion (map_of ps ''discussionBreakdown'')))"
| "completeButFills j = False"

text \<open>
  The three default fills, written from their description and without the code's tests:
  a missing priority (or an empty one) becomes \<^verbatim>\<open>Medium\<close>, a missing due date becomes the
  empty string, a missing discussion breakdown becomes the empty list. A new property
  comes last, an existing one keeps its place.
\<close>

fun defaultPriority :: "json \<Rightarrow> json" where
  "defaultPriority (JObj ps) =
     (if map_of ps ''priority'' = None \<or> map_of ps ''priority'' = Some (JStr [])
      then JObj (AList.update ''priority'' (JStr ''Medium'') ps) else JObj ps)"
| "defaultPriority j = j"

fun defaultDueDate :: "json \<Rightarrow> json" where
  "defaultDueDate (JObj ps) =
     (if map_of ps ''dueDate'' = None
      then JObj (AList.update ''dueDate'' (JStr []) ps) else JObj ps)"
| "defaultDueDate j = j"

fun defaultBreakdown :: "json \<Rightarrow> json" where
  "defaultBreakdown (JObj ps) =
     (if map_of ps ''discussionBreakdown'' = None
      then JObj (AList.update ''discussionBreakdown'' (JArr [] []) ps) else JObj ps)"
| "defaultBreakdown j = j"

fun defaultItems :: "json \<Rightarrow> json" where
  "defaultItems (JObj ps) =
     (case map_of ps ''actionItems'' of
        Some (JArr items aps) \<Rightarrow>
          JObj (AList.update ''actionItems''
                  (JArr (map (\<lambda>item. defaultDueDate (defaultPriority item)) items) aps) ps)
      | _ \<Rightarrow> JObj ps)"
| "defaultItems j = j"

definition withDefaults :: "json \<Rightarrow> json" where
  "withDefaults j = defaultBreakdown (defaultItems j)"

subsection \<open>What a returned value shares with the response\<close>

text \<open>
  Two values of the same kind: two objects, or two arrays of the same elements.
\<close>

fun sameShape :: "json \<Rightarrow> json \<Rightarrow> bool" where
  "sameShape (JObj ps) (JObj qs) = True"
| "sameShape (JArr xs ps) (JArr ys qs) = (xs = ys)"
| "sameShape j k = False"

text \<open>
  An action item after the fills, against the item of the response: the priority is the
  response's if that is truthy and \<^verbatim>\<open>Medium\<close> if not, the due date is the response's if there
  is one and the empty string if not, and every other property is the response's.
\<close>

definition itemFilledFrom :: "json \<Rightarrow> json \<Rightarrow> bool" where
  "itemFilledFrom orig item =
     (sameShape orig item
      \<and> getProp item ''priority''
          = (if truthy (getProp orig ''priority'') then getProp orig ''priority''
             else Some (JStr ''Medium''))
      \<and> getProp item ''dueDate''
          = (case getProp orig ''dueDate'' of None \<Rightarrow> Some (JStr []) | Some d \<Rightarrow> Some d)
      \<and> (\<forall>k. k \<noteq> ''priority'' \<and> k \<noteq> ''dueDate'' \<longrightarrow> getProp item k = getProp orig k))"

text \<open>
  A returned value against the response: the discussion breakdown is the response's if
  that is truthy and the empty list if not; the action items are the response's if they
  are falsy, and otherwise both are arrays, item by item as above; every other property
  is the response's.
\<close>

definition onlyFillsApplied :: "json \<Rightarrow> json \<Rightarrow> bool" where
  "onlyFillsApplied response result =
     (sameShape response result
      \<and> getProp result ''discussionBreakdown''
          = (if truthy (getProp response ''discussionBreakdown'')
             then getProp response ''discussionBreakdown'' else Some (JArr [] []))
      \<and> (if truthy (getProp response ''actionItems'')
          then (\<exists>items items' ps.
                  getProp response ''actionItems'' = Some (JArr items ps)
                  \<and> getProp result ''actionItems'' = Some (JArr items' ps)
                  \<and> list_all2 itemFilledFrom items items')
          else getProp result ''actionItems'' = getProp response ''actionItems'')
      \<and> (\<forall>k. k \<noteq> ''actionItems'' \<and> k \<noteq> ''discussionBreakdown'' \<longrightarrow>
             getProp result k = getProp response k))"

text \<open>A date written \<^verbatim>\<open>YYYY-MM-DD\<close>: four digits, two digits, two digits, with hyphens.\<close>

definition isDigit :: "char \<Rightarrow> bool" where
  "isDigit c = (48 \<le> (of_char c :: nat) \<and> (of_char c :: nat) \<le> 57)"

definition isDateLiteral :: "string \<Rightarrow> bool" where
  "isDateLiteral s =
     (length s = 10 \<and> s ! 4 = CHR ''-'' \<and> s ! 7 = CHR ''-'' \<and>
      list_all isDigit (take 4 s @ take 2 (drop 5 s) @ take 2 (drop 8 s)))"

section \<open>App.tsx: the application state\<close>

datatype InputTab = TextTab | AudioTab

record AppState =
  transcript :: jsstring
  summaryResult :: "json option"
  isLoading :: bool
  error :: "string option"
  fileName :: string
  activeInputTab :: InputTab
  meetingTitle :: string

definition handleFileUpload :: "jsstring \<Rightarrow> string \<Rightarrow> AppState \<Rightarrow> AppState" where
  "handleFileUpload content name st =
     st\<lparr>transcript := content, fileName := name, summaryResult := None, error := None\<rparr>"

definition emptyTranscriptMessage :: string where
  "emptyTranscriptMessage =
     ''Transcript is empty. Please upload, paste, or transcribe audio first.''"

text \<open>
  \<^verbatim>\<open>handleSummarize\<close> up to its \<^verbatim>\<open>await\<close>: the new state, and the arguments of the call
  of \<^verbatim>\<open>summarizeTranscript\<close> when it is made (\<open>None\<close>: the handler returned without
  calling the gateway).
\<close>

definition handleSummarize_start :: "AppState \<Rightarrow> AppState \<times> (jsstring \<times> string) option" where
  "handleSummarize_start st =
     (if trim (transcript st) = []
      then (st\<lparr>error := Some emptyTranscriptMessage\<rparr>, None)
      else (st\<lparr>isLoading := True, error := None, summaryResult := None\<rparr>,
            Some (transcript st, meetingTitle st)))"

text \<open>
  \<^verbatim>\<open>handleSummarize\<close> after the \<^verbatim>\<open>await\<close>: the \<^verbatim>\<open>try\<close> body or the \<^verbatim>\<open>catch\<close> clause, then
  \<^verbatim>\<open>finally\<close>. The updates apply to the state at that moment.
\<close>

definition handleSummarize_settle :: "thrown + json \<Rightarrow> AppState \<Rightarrow> AppState" where
  "handleSummarize_settle outcome st =
     (case outcome of
        Inr result \<Rightarrow> st\<lparr>summaryResult := Some result, isLoading := False\<rparr>
      | Inl err \<Rightarrow>
          st\<lparr>error := Some (case err of
                               ErrorObj message \<Rightarrow> message
                             | NonError \<Rightarrow> ''An unknown error occurred while summarizing.''),
             isLoading := False\<rparr>)"

text \<open>One whole run of the handler, nothing else happening during the request.\<close>

definition handleSummarize :: "(jsstring \<Rightarrow> string \<Rightarrow> api_reply) \<Rightarrow> AppState \<Rightarrow> AppState" where
  "handleSummarize ai st =
     (case handleSummarize_start st of
        (st1, None) \<Rightarrow> st1
      | (st1, Some (t, title)) \<Rightarrow> handleSummarize_settle (summarizeTranscript ai t title) st1)"

section \<open>components/FileUpload.tsx\<close>

text \<open>
  A dropped or selected file: its MIME type, its name, and what \<^verbatim>\<open>readAsText\<close> delivers
  to \<^verbatim>\<open>onload\<close> (\<open>None\<close>: the read fails, and \<^verbatim>\<open>onload\<close> never fires; the component sets no
  \<^verbatim>\<open>onerror\<close>).
\<close>

record File =
  ftype :: string
  fname :: string
  ftext :: "jsstring option"

definition endsWith :: "string \<Rightarrow> string \<Rightarrow> bool" where
  "endsWith s suf = (length suf \<le> length s \<and> drop (length s - length suf) s = suf)"

definition invalidFileAlert :: string where
  "invalidFileAlert = ''Please upload a valid .txt or .vtt file.''"

text \<open>
  \<^verbatim>\<open>handleFile\<close> with \<^verbatim>\<open>onFileUpload = handleFileUpload\<close>: the application state after the
  upload, and the alert shown, if any.
\<close>

definition handleFile :: "File option \<Rightarrow> AppState \<Rightarrow> AppState \<times> string option" where
  "handleFile file st =
     (case file of
        None \<Rightarrow> (st, Some invalidFileAlert)
      | Some f \<Rightarrow>
          if ftype f = ''text/plain'' \<or> endsWith (fname f) ''.vtt''
          then (case ftext f of
                  Some content \<Rightarrow> (handleFileUpload content (fname f) st, None)
                | None \<Rightarrow> (st, None))
          else (st, Some invalidFileAlert))"

section \<open>components/ResultDisplay.tsx\<close>

text \<open>
  The component is typed over the interfaces of \<^verbatim>\<open>types.ts\<close>. A priority is a string at
  run time (whatever the model answered), and the active filter is one of the four
  button labels.
\<close>

record ActionItem =
  task :: string
  assignee :: string
  priority :: string
  dueDate :: string

record DiscussionPoint =
  speaker :: string
  points :: "string list"

record SummaryResult =
  title :: string
  shortSummary :: string
  detailedSummary :: "string list"
  actionItems :: "ActionItem list"
  discussionBreakdown :: "DiscussionPoint list"

definition filteredActionItems :: "SummaryResult \<Rightarrow> string \<Rightarrow> ActionItem list" where
  "filteredActionItems result activeFilter =
     (if activeFilter = ''All'' then actionItems result
      else filter (\<lambda>item. priority item = activeFilter) (actionItems result))"

subsection \<open>Playback\<close>

text \<open>
  \<^verbatim>\<open>generateSpeech\<close> of \<^verbatim>\<open>geminiService.ts\<close>. The request is rejected, or it is answered and
  \<^verbatim>\<open>response.candidates?.[0]?.content?.parts?.[0]?.inlineData?.data\<close> is the given value
  (\<open>None\<close>: \<^verbatim>\<open>undefined\<close>). A missing or empty payload throws inside the \<^verbatim>\<open>try\<close>, and the
  \<^verbatim>\<open>catch\<close> replaces every exception by one error.
\<close>

datatype speech_reply = SpeechRejected | SpeechResponse "string option"

definition speechError :: thrown where
  "speechError = ErrorObj ''Failed to generate speech. Please try again.''"

definition generateSpeech :: "(string \<Rightarrow> speech_reply) \<Rightarrow> string \<Rightarrow> thrown + string" where
  "generateSpeech tts text =
     (case tts text of
        SpeechRejected \<Rightarrow> Inl speechError
      | SpeechResponse None \<Rightarrow> Inl speechError
      | SpeechResponse (Some base64Audio) \<Rightarrow>
          if base64Audio = [] then Inl speechError else Inr base64Audio)"

text \<open>
  \<^verbatim>\<open>decode\<close>: \<^verbatim>\<open>atob\<close> (the browser's, a parameter) gives a binary string, one character
  below 256 for each byte, or throws; the loop copies the character codes into the bytes.
\<close>

definition decode :: "(string \<Rightarrow> thrown + string) \<Rightarrow> string \<Rightarrow> thrown + 8 word list" where
  "decode atob base64 =
     (case atob base64 of
        Inl e \<Rightarrow> Inl e
      | Inr binaryString \<Rightarrow> Inr (map of_char binaryString))"

text \<open>
  \<^verbatim>\<open>new Int16Array(data.buffer)\<close> reads the bytes in pairs, low byte first (typed arrays
  use the byte order of the host, little-endian on every platform a browser runs on).
\<close>

fun int16Array :: "8 word list \<Rightarrow> 16 word list" where
  "int16Array (lo # hi # rest) = word_cat hi lo # int16Array rest"
| "int16Array rest = []"

datatype dom_error = RangeError | NotSupportedError

text \<open>
  \<^verbatim>\<open>decodeAudioData\<close>. The \<^verbatim>\<open>Int16Array\<close> constructor throws a RangeError on a buffer of
  odd length. \<^verbatim>\<open>ctx.createBuffer\<close> throws a NotSupportedError for no channel, for a length
  of zero, and for a channel count or sample rate outside what the context supports
  (\<open>supports\<close>, a parameter); its length argument is truncated to an integer, and the
  loop's writes beyond that length are ignored, so each channel holds
  \<open>length dataInt16 div numChannels\<close> samples. Every quotient \<open>s / 32768\<close> of a 16-bit
  integer is a 32-bit float, exactly, so the samples are real numbers here. The result
  is the channel data of the buffer, one list for each channel.
\<close>

definition decodeAudioData ::
  "(nat \<Rightarrow> nat \<Rightarrow> bool) \<Rightarrow> 8 word list \<Rightarrow> nat \<Rightarrow> nat \<Rightarrow> dom_error + real list list" where
  "decodeAudioData supports data sampleRate numChannels =
     (if odd (length data) then Inl RangeError
      else let dataInt16 = int16Array data;
               frameCount = length dataInt16 div numChannels
           in if numChannels = 0 \<or> frameCount = 0 \<or> \<not> supports numChannels sampleRate
              then Inl NotSupportedError
              else Inr (map (\<lambda>channel.
                          map (\<lambda>i. real_of_int (sint (dataInt16 ! (i * numChannels + channel))) / 32768)
                            [0..<frameCount])
                        [0..<numChannels]))"

datatype audio_state = Idle | Loading | Playing

text \<open>
  The playback state of \<^verbatim>\<open>ResultDisplay\<close>: the two state variables and the two refs. The
  source node is identified with the buffer it plays; of the context only its existence
  is kept.
\<close>

record Playback =
  audioState :: audio_state
  ttsError :: "string option"
  audioSourceRef :: "real list list option"
  audioContextRef :: bool

text \<open>
  What the browser and the speech service do during one playback attempt: the reply of
  the service, the exception thrown by the \<^verbatim>\<open>AudioContext\<close> constructor, if any, the
  exception of \<^verbatim>\<open>resume\<close> or of making and connecting the gain node, if any, \<^verbatim>\<open>atob\<close>, the
  buffers the context supports, and the message texts of its exceptions.
\<close>

record Platform =
  tts :: "string \<Rightarrow> speech_reply"
  contextCreation :: "thrown option"
  contextResume :: "thrown option"
  atob :: "string \<Rightarrow> thrown + string"
  supports :: "nat \<Rightarrow> nat \<Rightarrow> bool"
  errorMessage :: "dom_error \<Rightarrow> string"

text \<open>
  \<^verbatim>\<open>handleToggleAudio\<close> up to its first \<^verbatim>\<open>await\<close>: the new state and the texts for which
  \<^verbatim>\<open>generateSpeech\<close> is called (none or one). The callback is made by
  \<^verbatim>\<open>useCallback(..., [audioState])\<close>: the \<^verbatim>\<open>audioState\<close> its two tests read is the constant
  \<open>captured\<close> at the render that made the callback, which \<^verbatim>\<open>setAudioState\<close> does not
  change; a callback made at a render of the state \<open>st\<close> has \<open>captured = audioState st\<close>.
  The refs are read, and the refs and the state are written, in the current state.
\<close>

definition handleToggleAudio_start ::
  "audio_state \<Rightarrow> Playback \<Rightarrow> string \<Rightarrow> Playback \<times> string list" where
  "handleToggleAudio_start captured st text =
     (if captured = Playing \<and> audioSourceRef st \<noteq> None
      then (st\<lparr>audioSourceRef := None, audioState := Idle\<rparr>, [])
      else if captured = Loading then (st, [])
      else (st\<lparr>audioState := Loading, ttsError := None\<rparr>, [text]))"

text \<open>
  The body of the \<^verbatim>\<open>try\<close> up to the decoded buffer: the state (the context ref may have
  been set) and the exception thrown or the buffer.
\<close>

definition prepareAudio :: "Platform \<Rightarrow> string \<Rightarrow> Playback \<Rightarrow> Playback \<times> (thrown + real list list)" where
  "prepareAudio env text st =
     (case generateSpeech (tts env) text of
        Inl e \<Rightarrow> (st, Inl e)
      | Inr base64Audio \<Rightarrow>
          (case (if audioContextRef st then None else contextCreation env) of
             Some e \<Rightarrow> (st, Inl e)
           | None \<Rightarrow>
               let st1 = st\<lparr>audioContextRef := True\<rparr> in
               (case contextResume env of
                  Some e \<Rightarrow> (st1, Inl e)
                | None \<Rightarrow>
                    (case decode (atob env) base64Audio of
                       Inl e \<Rightarrow> (st1, Inl e)
                     | Inr bytes \<Rightarrow>
                         (case decodeAudioData (supports env) bytes 24000 1 of
                            Inl d \<Rightarrow> (st1, Inl (ErrorObj (errorMessage env d)))
                          | Inr audioBuffer \<Rightarrow> (st1, Inr audioBuffer))))))"

text \<open>The rest of the handler: the source is started, or the \<^verbatim>\<open>catch\<close> clause runs.\<close>

definition handleToggleAudio_finish :: "Platform \<Rightarrow> string \<Rightarrow> Playback \<Rightarrow> Playback" where
  "handleToggleAudio_finish env text st =
     (case prepareAudio env text st of
        (st1, Inr audioBuffer) \<Rightarrow> st1\<lparr>audioSourceRef := Some audioBuffer, audioState := Playing\<rparr>
      | (st1, Inl err) \<Rightarrow>
          st1\<lparr>ttsError := Some (case err of
                                 ErrorObj message \<Rightarrow> message
                               | NonError \<Rightarrow> ''Failed to generate audio.''),
              audioState := Idle\<rparr>)"

text \<open>
  One whole run of the handler, nothing else happening while it waits: the state when
  it has resolved, and the texts for which it called \<^verbatim>\<open>generateSpeech\<close>.
\<close>

definition handleToggleAudio ::
  "Platform \<Rightarrow> audio_state \<Rightarrow> string \<Rightarrow> Playback \<Rightarrow> Playback \<times> string list" where
  "handleToggleAudio env captured text st =
     (case handleToggleAudio_start captured st text of
        (st1, []) \<Rightarrow> (st1, [])
      | (st1, t # ts) \<Rightarrow> (handleToggleAudio_finish env t st1, t # ts))"

text \<open>\<^verbatim>\<open>source.onended\<close>: the natural end of the playback.\<close>

definition onended :: "Playback \<Rightarrow> Playback" where
  "onended st = st\<lparr>audioState := Idle, audioSourceRef := None\<rparr>"

text \<open>The error line of the view, \<^verbatim>\<open>{ttsError && <p>{ttsError}</p>}\<close>, is rendered.\<close>

definition ttsErrorShown :: "Playback \<Rightarrow> bool" where
  "ttsErrorShown st = (case ttsError st of None \<Rightarrow> False | Some message \<Rightarrow> message \<noteq> [])"

subsection \<open>Dates\<close>

text \<open>
  \<^verbatim>\<open>formatDate\<close> uses the built-in \<^verbatim>\<open>Date\<close>. Its operations are modelled after ECMAScript's
  definitions: a time value is a number of milliseconds since 1970-01-01T00:00Z, or NaN
  (\<open>None\<close>) for an invalid date; days are numbered from 1970-01-01; months from 0.
\<close>

definition msPerDay :: int where
  "msPerDay = 86400000"

definition Day :: "int \<Rightarrow> int" where
  "Day t = t div msPerDay"

definition TimeWithinDay :: "int \<Rightarrow> int" where
  "TimeWithinDay t = t mod msPerDay"

definition DaysInYear :: "int \<Rightarrow> int" where
  "DaysInYear y =
     (if y mod 4 \<noteq> 0 then 365 else if y mod 100 \<noteq> 0 then 366
      else if y mod 400 \<noteq> 0 then 365 else 366)"

definition DayFromYear :: "int \<Rightarrow> int" where
  "DayFromYear y = 365 * (y - 1970) + (y - 1969) div 4 - (y - 1901) div 100 + (y - 1601) div 400"

text \<open>
  The year a day falls in: ECMAScript's largest \<open>y\<close> with \<open>DayFromYear y \<le> d\<close>. The
  quotient by the mean length of a year is that year or next to it.
\<close>

definition YearFromDay :: "int \<Rightarrow> int" where
  "YearFromDay d =
     (let y = 1970 + (400 * d) div 146097 in
      if d < DayFromYear y then y - 1
      else if DayFromYear (y + 1) \<le> d then y + 1
      else y)"

text \<open>The number of days of the year before month \<open>m\<close>; \<open>leap\<close> is 1 in a leap year.\<close>

definition monthStart :: "int \<Rightarrow> int \<Rightarrow> int" where
  "monthStart leap m =
     (if m \<le> 0 then 0 else if m = 1 then 31 else if m = 2 then 59 + leap
      else if m = 3 then 90 + leap else if m = 4 then 120 + leap
      else if m = 5 then 151 + leap else if m = 6 then 181 + leap
      else if m = 7 then 212 + leap else if m = 8 then 243 + leap
      else if m = 9 then 273 + leap else if m = 10 then 304 + leap
      else if m = 11 then 334 + leap else 365 + leap)"

definition InLeapYear :: "int \<Rightarrow> int" where
  "InLeapYear y = (if DaysInYear y = 366 then 1 else 0)"

definition MonthFromDayWithinYear :: "int \<Rightarrow> int \<Rightarrow> int" where
  "MonthFromDayWithinYear leap dayWithinYear =
     (if dayWithinYear < 31 then 0 else if dayWithinYear < 59 + leap then 1
      else if dayWithinYear < 90 + leap then 2 else if dayWithinYear < 120 + leap then 3
      else if dayWithinYear < 151 + leap then 4 else if dayWithinYear < 181 + leap then 5
      else if dayWithinYear < 212 + leap then 6 else if dayWithinYear < 243 + leap then 7
      else if dayWithinYear < 273 + leap then 8 else if dayWithinYear < 304 + leap then 9
      else if dayWithinYear < 334 + leap then 10 else 11)"

text \<open>Year, month (from 0) and day of the month of a day number.\<close>

definition dateOfDay :: "int \<Rightarrow> int \<times> int \<times> int" where
  "dateOfDay d =
     (let y = YearFromDay d;
          dayWithinYear = d - DayFromYear y;
          m = MonthFromDayWithinYear (InLeapYear y) dayWithinYear
      in (y, m, dayWithinYear - monthStart (InLeapYear y) m + 1))"

definition YearFromTime :: "int \<Rightarrow> int" where
  "YearFromTime t = fst (dateOfDay (Day t))"

definition MonthFromTime :: "int \<Rightarrow> int" where
  "MonthFromTime t = fst (snd (dateOfDay (Day t)))"

definition DateFromTime :: "int \<Rightarrow> int" where
  "DateFromTime t = snd (snd (dateOfDay (Day t)))"

definition MakeDay :: "int \<Rightarrow> int \<Rightarrow> int \<Rightarrow> int" where
  "MakeDay year month date =
     (let ym = year + month div 12; mn = month mod 12
      in DayFromYear ym + monthStart (InLeapYear ym) mn + date - 1)"

definition MakeDate :: "int \<Rightarrow> int \<Rightarrow> int" where
  "MakeDate day time = day * msPerDay + time"

definition TimeClip :: "int \<Rightarrow> int option" where
  "TimeClip t = (if \<bar>t\<bar> \<le> 8640000000000000 then Some t else None)"

text \<open>
  The host: the offset of local time from UTC in milliseconds (positive east of
  Greenwich; taken as constant over the days concerned), and what \<^verbatim>\<open>Date.parse\<close> makes of a
  string that is no date-only ISO literal (left to the implementation by ECMAScript for
  most such strings; \<open>None\<close>: an invalid date).
\<close>

record Host =
  localTZA :: int
  parseOther :: "string \<Rightarrow> int option"

definition LocalTime :: "Host \<Rightarrow> int \<Rightarrow> int" where
  "LocalTime host t = t + localTZA host"

definition UTC :: "Host \<Rightarrow> int \<Rightarrow> int" where
  "UTC host t = t - localTZA host"

definition digitValue :: "char \<Rightarrow> int" where
  "digitValue c = int (of_char c) - 48"

definition decimalValue :: "string \<Rightarrow> int" where
  "decimalValue s = foldl (\<lambda>n c. 10 * n + digitValue c) 0 s"

definition DaysInMonth :: "int \<Rightarrow> int \<Rightarrow> int" where
  "DaysInMonth y m = monthStart (InLeapYear y) (m + 1) - monthStart (InLeapYear y) m"

text \<open>
  The date-only form \<^verbatim>\<open>YYYY-MM-DD\<close> of ECMAScript's date-time string format, with a month
  from 01 to 12 and a day of that month: midnight UTC of that day.
\<close>

definition isoDateOnly :: "string \<Rightarrow> int option" where
  "isoDateOnly s =
     (if isDateLiteral s then
        (let y = decimalValue (take 4 s);
             m = decimalValue (take 2 (drop 5 s));
             d = decimalValue (take 2 (drop 8 s))
         in if 1 \<le> m \<and> m \<le> 12 \<and> 1 \<le> d \<and> d \<le> DaysInMonth y (m - 1)
            then Some (MakeDate (MakeDay y (m - 1) d) 0) else None)
      else None)"

text \<open>\<^verbatim>\<open>new Date(dateString)\<close>.\<close>

definition newDate :: "Host \<Rightarrow> string \<Rightarrow> int option" where
  "newDate host dateString =
     (case isoDateOnly dateString of
        Some t \<Rightarrow> Some t
      | None \<Rightarrow> (case parseOther host dateString of None \<Rightarrow> None | Some t \<Rightarrow> TimeClip t))"

definition getDate :: "Host \<Rightarrow> int option \<Rightarrow> int option" where
  "getDate host date = map_option (\<lambda>t. DateFromTime (LocalTime host t)) date"

definition setDate :: "Host \<Rightarrow> int option \<Rightarrow> int option \<Rightarrow> int option" where
  "setDate host date dt =
     (case (date, dt) of
        (Some t, Some d) \<Rightarrow>
          (let lt = LocalTime host t;
               newTime = MakeDate (MakeDay (YearFromTime lt) (MonthFromTime lt) d) (TimeWithinDay lt)
           in TimeClip (UTC host newTime))
      | _ \<Rightarrow> None)"

definition monthName :: "int \<Rightarrow> string" where
  "monthName m =
     (if m = 0 then ''January'' else if m = 1 then ''February'' else if m = 2 then ''March''
      else if m = 3 then ''April'' else if m = 4 then ''May'' else if m = 5 then ''June''
      else if m = 6 then ''July'' else if m = 7 then ''August'' else if m = 8 then ''September''
      else if m = 9 then ''October'' else if m = 10 then ''November'' else ''December'')"

fun decimal :: "nat \<Rightarrow> string" where
  "decimal n = (if n < 10 then [char_of (48 + n)] else decimal (n div 10) @ [char_of (48 + n mod 10)])"

declare decimal.simps [simp del]

text \<open>
  The \<^verbatim>\<open>en-US\<close> rendering with a long month, a numeric day and a numeric year, as in
  \<^verbatim>\<open>March 15, 2024\<close>, of a year, a month and a day. The year shown is the year of the
  era, without the era: the year 0 is shown as 1, the year before it as 2.
\<close>

definition yearOfEra :: "int \<Rightarrow> int" where
  "yearOfEra y = (if y \<le> 0 then 1 - y else y)"

definition longDate :: "int \<times> int \<times> int \<Rightarrow> string" where
  "longDate ymd =
     (case ymd of (y, m, d) \<Rightarrow>
        monthName m @ '' '' @ decimal (nat d) @ '', '' @ decimal (nat (yearOfEra y)))"

definition toLocaleDateString :: "Host \<Rightarrow> int option \<Rightarrow> string" where
  "toLocaleDateString host date =
     (case date of
        None \<Rightarrow> ''Invalid Date''
      | Some t \<Rightarrow> longDate (dateOfDay (Day (LocalTime host t))))"

text \<open>
  \<^verbatim>\<open>formatDate\<close>. None of the \<^verbatim>\<open>Date\<close> operations throws, so the \<^verbatim>\<open>catch\<close> clause is never
  entered.
\<close>

definition formatDate :: "Host \<Rightarrow> string \<Rightarrow> string" where
  "formatDate host dateString =
     (if dateString = [] then ''N/A''
      else let date = newDate host dateString;
               date' = setDate host date (map_option (\<lambda>d. d + 1) (getDate host date))
           in toLocaleDateString host date')"

text \<open>
  The three places a due date is shown: the \<^verbatim>\<open>Due\<close> field of the view, the action-item
  line of the exported document (\<^verbatim>\<open>handleDownload\<close>), and the notification text
  (\<^verbatim>\<open>createNotificationText\<close>).
\<close>

definition dueField :: "Host \<Rightarrow> ActionItem \<Rightarrow> string" where
  "dueField host item = formatDate host (dueDate item)"

definition exportLine :: "Host \<Rightarrow> ActionItem \<Rightarrow> string" where
  "exportLine host item =
     ''- [ ] '' @ task item @ '' (Assignee: '' @ assignee item @ '', Priority: '' @ priority item
       @ '', Due: '' @ formatDate host (dueDate item) @ '')''"

definition createNotificationText :: "Host \<Rightarrow> ActionItem \<Rightarrow> string" where
  "createNotificationText host item =
     ''Reminder: The task '' @ [CHR 0x22] @ task item @ [CHR 0x22] @ '' is assigned to ''
       @ assignee item @ ''. Priority: '' @ priority item @ ''. Due date: ''
       @ formatDate host (dueDate item) @ ''.''"

text \<open>
  The year, month (from 0) and day that a literal \<^verbatim>\<open>YYYY-MM-DD\<close> names, and the calendar
  day after a day of the calendar.
\<close>

definition dateOfLiteral :: "string \<Rightarrow> int \<times> int \<times> int" where
  "dateOfLiteral s =
     (decimalValue (take 4 s), decimalValue (take 2 (drop 5 s)) - 1, decimalValue (take 2 (drop 8 s)))"

definition nextDay :: "int \<times> int \<times> int \<Rightarrow> int \<times> int \<times> int" where
  "nextDay ymd =
     (case ymd of (y, m, d) \<Rightarrow>
        if d < DaysInMonth y m then (y, m, d + 1)
        else if m < 11 then (y, m + 1, 1)
        else (y + 1, 0, 1))"

section \<open>Sample inputs\<close>

definition sampleItems :: "ActionItem list" where
  "sampleItems =
     [\<lparr>task = ''Write the report'', assignee = ''John'', priority = ''High'', dueDate = ''2024-03-15''\<rparr>,
      \<lparr>task = ''Book a room'', assignee = ''Ana'', priority = ''Low'', dueDate = []\<rparr>,
      \<lparr>task = ''Ship'', assignee = ''Unassigned'', priority = ''High'', dueDate = []\<rparr>]"

definition sampleSummary :: SummaryResult where
  "sampleSummary =
     \<lparr>title = ''Weekly sync'', shortSummary = ''We ship Friday.'', detailedSummary = [],
      actionItems = sampleItems, discussionBreakdown = []\<rparr>"

definition oldResult :: json where
  "oldResult = JObj [(''title'', JStr ''Old meeting''), (''actionItems'', JArr [] [])]"

text \<open>A state that holds a result of an earlier run; its transcript is the text \<^verbatim>\<open>Hi\<close>.\<close>

definition sampleState :: AppState where
  "sampleState =
     \<lparr>transcript = [0x48, 0x69], summaryResult = Some oldResult, isLoading = False,
      error = None, fileName = ''notes.txt'', activeInputTab = TextTab, meetingTitle = []\<rparr>"

text \<open>The same state with a transcript of a space, a line feed and a no-break space.\<close>

definition blankState :: AppState where
  "blankState = sampleState\<lparr>transcript := [0x20, 0x0A, 0xA0]\<rparr>"

definition networkDown :: "jsstring \<Rightarrow> string \<Rightarrow> api_reply" where
  "networkDown t u = Rejected"

definition vttFile :: File where
  "vttFile = \<lparr>ftype = [], fname = ''call.vtt'', ftext = Some [0x57, 0x45]\<rparr>"

definition pdfFile :: File where
  "pdfFile = \<lparr>ftype = ''application/pdf'', fname = ''call.pdf'', ftext = Some [0x25]\<rparr>"

text \<open>The model answers \<^verbatim>\<open>{}\<close>.\<close>

definition emptyObjectReply :: "jsstring \<Rightarrow> string \<Rightarrow> api_reply" where
  "emptyObjectReply t u = Parsed (JObj [])"

text \<open>
  A response with every required property; the first action item has an empty priority,
  the second a due date that is no date.
\<close>

definition completeResponse :: json where
  "completeResponse =
     JObj [(''title'', JStr ''Weekly sync''),
           (''shortSummary'', JStr ''We ship Friday.''),
           (''detailedSummary'', JArr [JStr ''Shipping''] []),
           (''actionItems'',
              JArr [JObj [(''task'', JStr ''Write the report''), (''assignee'', JStr ''John''),
                          (''priority'', JStr []), (''dueDate'', JStr [])],
                    JObj [(''task'', JStr ''Book a room''), (''assignee'', JStr ''Ana''),
                          (''priority'', JStr ''Low''), (''dueDate'', JStr ''tomorrow'')]] []),
           (''discussionBreakdown'', JArr [JObj [(''speaker'', JStr ''Speaker 1''),
                                                 (''points'', JArr [JStr ''We ship Friday.''] [])]] [])]"

definition completeReply :: "jsstring \<Rightarrow> string \<Rightarrow> api_reply" where
  "completeReply t u = Parsed completeResponse"

text \<open>
  A response that lacks nothing but the priority and the due date of its action item and
  the discussion breakdown.
\<close>

definition unfilledResponse :: json where
  "unfilledResponse =
     JObj [(''title'', JStr ''Weekly sync''),
           (''shortSummary'', JStr ''We ship Friday.''),
           (''detailedSummary'', JArr [JStr ''Shipping''] []),
           (''actionItems'',
              JArr [JObj [(''task'', JStr ''Write the report''), (''assignee'', JStr ''John'')]] [])]"

definition unfilledReply :: "jsstring \<Rightarrow> string \<Rightarrow> api_reply" where
  "unfilledReply t u = Parsed unfilledResponse"

text \<open>The same response with the three fills made.\<close>

definition filledResponse :: json where
  "filledResponse =
     JObj [(''title'', JStr ''Weekly sync''),
           (''shortSummary'', JStr ''We ship Friday.''),
           (''detailedSummary'', JArr [JStr ''Shipping''] []),
           (''actionItems'',
              JArr [JObj [(''task'', JStr ''Write the report''), (''assignee'', JStr ''John''),
                          (''priority'', JStr ''Medium''), (''dueDate'', JStr [])]] []),
           (''discussionBreakdown'', JArr [] [])]"

text \<open>A response whose one action item has neither priority nor due date.\<close>

definition sparseResponse :: json where
  "sparseResponse = JObj [(''actionItems'', JArr [JObj [(''task'', JStr ''Ship'')]] [])]"

definition sparseReply :: "jsstring \<Rightarrow> string \<Rightarrow> api_reply" where
  "sparseReply t u = Parsed sparseResponse"

text \<open>
  Two hosts that parse nothing but the ISO form: New York in March 2024 (four hours
  behind UTC) and Berlin (one hour ahead).
\<close>

definition noOtherFormats :: "string \<Rightarrow> int option" where
  "noOtherFormats s = None"

definition newYork :: Host where
  "newYork = \<lparr>localTZA = - 14400000, parseOther = noOtherFormats\<rparr>"

definition berlin :: Host where
  "berlin = \<lparr>localTZA = 3600000, parseOther = noOtherFormats\<rparr>"

text \<open>An idle player that still shows the error of an earlier attempt.\<close>

definition idlePlayback :: Playback where
  "idlePlayback =
     \<lparr>audioState = Idle, ttsError = Some ''old'', audioSourceRef = None, audioContextRef = False\<rparr>"

definition serviceDown :: "string \<Rightarrow> speech_reply" where
  "serviceDown text = SpeechRejected"

definition threeBytes :: "string \<Rightarrow> speech_reply" where
  "threeBytes text = SpeechResponse (Some ''AAEC'')"


text \<open>\<^verbatim>\<open>atob\<close> on the two payloads above: the bytes 00 01 02, and 00 80 FF 7F.\<close>

definition sampleAtob :: "string \<Rightarrow> thrown + string" where
  "sampleAtob base64 =
     (if base64 = ''AAEC'' then Inr [CHR 0x00, CHR 0x01, CHR 0x02]
      else if base64 = ''AID/fw=='' then Inr [CHR 0x00, CHR 0x80, CHR 0xFF, CHR 0x7F]
      else Inl (ErrorObj ''The string to be decoded is not correctly encoded.''))"

definition anyBuffer :: "nat \<Rightarrow> nat \<Rightarrow> bool" where
  "anyBuffer numChannels sampleRate = True"

definition sampleMessage :: "dom_error \<Rightarrow> string" where
  "sampleMessage e =
     (case e of
        RangeError \<Rightarrow> ''byte length of Int16Array should be a multiple of 2''
      | NotSupportedError \<Rightarrow> ''The number of frames provided (0) is less than or equal to the minimum bound (0).'')"

definition browser :: "(string \<Rightarrow> speech_reply) \<Rightarrow> Platform" where
  "browser service =
     \<lparr>tts = service, contextCreation = None, contextResume = None, atob = sampleAtob,
      supports = anyBuffer, errorMessage = sampleMessage\<rparr>"

section \<open>Properties\<close>

subsection \<open>Filtering\<close>

text \<open>
  C5. For every summary result and every priority \<open>p\<close> among High, Medium and Low,
  filtering the action items by \<open>p\<close> gives exactly the items whose priority is \<open>p\<close>, in
  their original order (a subsequence of the full list holding all of them and nothing
  else), computed from the full list; filtering by All gives the list unchanged.
\<close>

theorem filteredActionItems_exact:
  assumes "p \<in> {''High'', ''Medium'', ''Low''}"
  shows "filteredActionItems result p = filter (\<lambda>item. priority item = p) (actionItems result)
       \<and> subseq (filteredActionItems result p) (actionItems result)
       \<and> set (filteredActionItems result p) = {item \<in> set (actionItems result). priority item = p}
       \<and> filteredActionItems result ''All'' = actionItems result"
proof -
  from assms have "p \<noteq> ''All''" by auto
  then have eq: "filteredActionItems result p
      = filter (\<lambda>item. priority item = p) (actionItems result)"
    by (simp add: filteredActionItems_def)
  have "subseq (filteredActionItems result p) (actionItems result)"
    unfolding eq by simp
  moreover have "set (filteredActionItems result p)
      = {item \<in> set (actionItems result). priority item = p}"
    unfolding eq by auto
  moreover have "filteredActionItems result ''All'' = actionItems result"
    by (simp add: filteredActionItems_def)
  ultimately show ?thesis using eq by simp
qed

theorem filteredActionItems_exact_witness:
  "''High'' \<in> {''High'', ''Medium'', ''Low''}
   \<and> filteredActionItems sampleSummary ''High''
       = [\<lparr>task = ''Write the report'', assignee = ''John'', priority = ''High'', dueDate = ''2024-03-15''\<rparr>,
          \<lparr>task = ''Ship'', assignee = ''Unassigned'', priority = ''High'', dueDate = []\<rparr>]
   \<and> filteredActionItems sampleSummary ''All'' = sampleItems"
  using filteredActionItems_exact [of "''High''" sampleSummary]
  by (simp add: sampleSummary_def sampleItems_def)

subsection \<open>Upload\<close>

lemma endsWith_suffix: "endsWith s suf = suffix suf s"
proof
  assume "endsWith s suf"
  then have "s = take (length s - length suf) s @ suf"
    by (metis append_take_drop_id endsWith_def)
  then show "suffix suf s" by (rule suffixI)
next
  assume "suffix suf s"
  then obtain p where "s = p @ suf" by (auto simp: suffix_def)
  then show "endsWith s suf" by (simp add: endsWith_def)
qed

text \<open>
  C9. A file whose MIME type is \<^verbatim>\<open>text/plain\<close> or whose name ends in \<^verbatim>\<open>.vtt\<close> sets the
  transcript to the text read from it and the file name to its name, and clears the
  result and the error; it shows no alert. Any other file is rejected with the alert and
  the state is unchanged.
\<close>

theorem handleFile_supported_or_rejected:
  "(ftype f = ''text/plain'' \<or> suffix ''.vtt'' (fname f) \<longrightarrow> ftext f = Some content \<longrightarrow>
      handleFile (Some f) st
        = (st\<lparr>transcript := content, fileName := fname f, summaryResult := None, error := None\<rparr>,
           None))
   \<and> (\<not> (ftype f = ''text/plain'' \<or> suffix ''.vtt'' (fname f)) \<longrightarrow>
      handleFile (Some f) st = (st, Some invalidFileAlert))"
  by (simp add: handleFile_def handleFileUpload_def endsWith_suffix)

theorem handleFile_supported_or_rejected_witness:
  "handleFile (Some vttFile) sampleState
     = (sampleState\<lparr>transcript := [0x57, 0x45], fileName := ''call.vtt'',
                    summaryResult := None, error := None\<rparr>, None)
   \<and> handleFile (Some pdfFile) sampleState = (sampleState, Some invalidFileAlert)"
proof -
  have a: "suffix ''.vtt'' (fname vttFile)"
    by (simp add: vttFile_def suffix_def)
  have b: "\<not> (ftype pdfFile = ''text/plain'' \<or> suffix ''.vtt'' (fname pdfFile))"
    by (simp add: pdfFile_def suffix_def)
  have c: "ftext vttFile = Some [0x57, 0x45]" "fname vttFile = ''call.vtt''"
    by (simp_all add: vttFile_def)
  from handleFile_supported_or_rejected [of vttFile "[0x57, 0x45]" sampleState] a c
  have "handleFile (Some vttFile) sampleState
     = (sampleState\<lparr>transcript := [0x57, 0x45], fileName := ''call.vtt'',
                    summaryResult := None, error := None\<rparr>, None)"
    by simp
  moreover from handleFile_supported_or_rejected [of pdfFile "[]" sampleState] b
  have "handleFile (Some pdfFile) sampleState = (sampleState, Some invalidFileAlert)"
    by blast
  ultimately show ?thesis by simp
qed

subsection \<open>Summarizing\<close>

lemma trim_empty_iff: "trim s = [] \<longleftrightarrow> (\<forall>c \<in> set s. isWhiteSpace c)"
proof
  assume "\<forall>c \<in> set s. isWhiteSpace c"
  then have "dropWhile isWhiteSpace s = []" by simp
  then show "trim s = []" unfolding trim_def by (simp only: rev.simps dropWhile.simps)
next
  assume t: "trim s = []"
  show "\<forall>c \<in> set s. isWhiteSpace c"
  proof (rule ccontr)
    assume "\<not> (\<forall>c \<in> set s. isWhiteSpace c)"
    then have ne: "dropWhile isWhiteSpace s \<noteq> []" by simp
    then have "\<not> isWhiteSpace (hd (dropWhile isWhiteSpace s))"
      by (rule hd_dropWhile)
    moreover from ne have "hd (dropWhile isWhiteSpace s) \<in> set (rev (dropWhile isWhiteSpace s))"
      by simp
    ultimately have "dropWhile isWhiteSpace (rev (dropWhile isWhiteSpace s)) \<noteq> []"
      by (metis dropWhile_eq_Nil_conv)
    with t show False by (simp add: trim_def)
  qed
qed

text \<open>
  C2. For every transcript that is empty or made of white space only, the handler
  returns before the gateway call (no call of \<^verbatim>\<open>summarizeTranscript\<close> is made, whatever
  the model would answer), sets the empty-input message as the error, and changes
  nothing else: the loading flag is not set.
\<close>

theorem blank_transcript_rejected_locally:
  assumes "\<forall>c \<in> set (transcript st). isWhiteSpace c"
  shows "handleSummarize_start st = (st\<lparr>error := Some emptyTranscriptMessage\<rparr>, None)
       \<and> handleSummarize ai st = st\<lparr>error := Some emptyTranscriptMessage\<rparr>
       \<and> isLoading (handleSummarize ai st) = isLoading st"
proof -
  from assms have "trim (transcript st) = []" by (simp add: trim_empty_iff)
  then show ?thesis by (simp add: handleSummarize_start_def handleSummarize_def)
qed

theorem blank_transcript_rejected_locally_witness:
  "handleSummarize_start blankState = (blankState\<lparr>error := Some emptyTranscriptMessage\<rparr>, None)
   \<and> handleSummarize networkDown blankState = blankState\<lparr>error := Some emptyTranscriptMessage\<rparr>
   \<and> isLoading (handleSummarize networkDown blankState) = False"
proof -
  have "\<forall>c \<in> set (transcript blankState). isWhiteSpace c"
    by (simp add: blankState_def sampleState_def isWhiteSpace_def)
  from blank_transcript_rejected_locally [OF this, of networkDown]
  show ?thesis by (simp add: blankState_def sampleState_def)
qed

subsection \<open>The summarize operation\<close>

lemma getProp_setProp:
  "setProp j k v = Some j' \<Longrightarrow> getProp j' k' = (if k' = k then Some v else getProp j k')"
  by (cases j) (auto simp: getProp_def update_conv')

lemma setProp_Some_iff: "(\<exists>j'. setProp j k v = Some j') \<longleftrightarrow> (\<exists>ps. j = JObj ps) \<or> (\<exists>xs ps. j = JArr xs ps)"
  by (cases j) auto

lemma fillItem_Some:
  assumes "fillItem item = Some item'"
  shows "getProp item' ''priority''
           = (if truthy (getProp item ''priority'') then getProp item ''priority''
              else Some (JStr ''Medium''))"
    and "getProp item' ''dueDate''
           = (case getProp item ''dueDate'' of None \<Rightarrow> Some (JStr []) | Some d \<Rightarrow> Some d)"
    and "truthy (getProp item' ''priority'')"
  using assms
  by (auto simp: fillItem_def getProp_setProp split: if_splits option.splits)

lemma those_map_Some:
  "those (map f xs) = Some ys \<Longrightarrow> list_all2 (\<lambda>x y. f x = Some y) xs ys"
  by (induction xs arbitrary: ys) (auto split: option.splits)

lemma those_map_eq:
  "(\<And>x. x \<in> set xs \<Longrightarrow> f x = Some (g x)) \<Longrightarrow> those (map f xs) = Some (map g xs)"
  by (induction xs) auto

lemma summarizeTranscript_Inr:
  "summarizeTranscript ai t u = Inr r \<longleftrightarrow> (\<exists>j. ai t u = Parsed j \<and> applyFallbacks j = Some r)"
  by (auto simp: summarizeTranscript_def split: api_reply.splits option.splits)

lemma summarizeTranscript_Inl:
  "summarizeTranscript ai t u = Inl e \<Longrightarrow> e = summarizationError"
  by (auto simp: summarizeTranscript_def split: api_reply.splits option.splits)

lemma fillBreakdown_actionItems:
  "fillBreakdown r1 = Some r \<Longrightarrow> getProp r ''actionItems'' = getProp r1 ''actionItems''"
  by (auto simp: fillBreakdown_def getProp_setProp split: if_splits)

lemma fillActionItems_Some:
  assumes "fillActionItems j = Some r1" and "getProp r1 ''actionItems'' = Some (JArr items ps)"
  shows "\<exists>items0. getProp j ''actionItems'' = Some (JArr items0 ps)
           \<and> list_all2 (\<lambda>orig item. fillItem orig = Some item) items0 items"
proof (cases "truthy (getProp j ''actionItems'')")
  case False
  with assms show ?thesis by (auto simp: fillActionItems_def)
next
  case True
  with assms(1) obtain items0 ps0 items' where
    g: "getProp j ''actionItems'' = Some (JArr items0 ps0)"
    and th: "those (map fillItem items0) = Some items'"
    and sp: "setProp j ''actionItems'' (JArr items' ps0) = Some r1"
    by (auto simp: fillActionItems_def Let_def split: option.splits json.splits)
  from sp have "getProp r1 ''actionItems'' = Some (JArr items' ps0)"
    by (simp add: getProp_setProp)
  with assms(2) have "items' = items" "ps0 = ps" by simp_all
  with g th show ?thesis by (auto dest: those_map_Some)
qed


lemma summarizationError_message:
  "(case summarizationError of ErrorObj message \<Rightarrow> message | NonError \<Rightarrow> x)
     = ''Failed to get summary from AI. Please check the transcript and try again.''"
  by (simp add: summarizationError_def)

text \<open>
  C1, as the code has it. With a transcript that is not blank the handler clears the
  result when the request starts; a failed request leaves no result and sets the error
  message, a successful one stores the value the gateway returned, whole. Only the local
  rejection of a blank transcript leaves the earlier result in place. At the \<^verbatim>\<open>await\<close> the
  state holds the earlier result (blank transcript) or none.
\<close>

theorem handleSummarize_replaces_or_clears:
  "handleSummarize ai st =
     (if trim (transcript st) = [] then st\<lparr>error := Some emptyTranscriptMessage\<rparr>
      else case summarizeTranscript ai (transcript st) (meetingTitle st) of
             Inr r \<Rightarrow> st\<lparr>isLoading := False, error := None, summaryResult := Some r\<rparr>
           | Inl e \<Rightarrow>
               st\<lparr>isLoading := False,
                  error := Some ''Failed to get summary from AI. Please check the transcript and try again.'',
                  summaryResult := None\<rparr>)
   \<and> summaryResult (fst (handleSummarize_start st))
       = (if trim (transcript st) = [] then summaryResult st else None)"
proof (cases "summarizeTranscript ai (transcript st) (meetingTitle st)")
  case (Inl e)
  then have "e = summarizationError" by (rule summarizeTranscript_Inl)
  with Inl show ?thesis
    by (simp add: handleSummarize_def handleSummarize_start_def handleSummarize_settle_def
        summarizationError_def)
next
  case (Inr r)
  then show ?thesis
    by (simp add: handleSummarize_def handleSummarize_start_def handleSummarize_settle_def)
qed

text \<open>
  The earlier result does not survive a failed request: with the network down, the
  state that held \<open>oldResult\<close> holds no result afterwards.
\<close>

theorem prior_result_cleared_on_failure:
  "summaryResult sampleState = Some oldResult
   \<and> summaryResult (handleSummarize networkDown sampleState) = None
   \<and> error (handleSummarize networkDown sampleState)
       = Some ''Failed to get summary from AI. Please check the transcript and try again.''"
  by (simp add: handleSummarize_def handleSummarize_start_def handleSummarize_settle_def
      summarizeTranscript_def networkDown_def sampleState_def trim_def isWhiteSpace_def
      summarizationError_def)

text \<open>
  C4, as the code has it. Whenever the operation returns a value whose \<^verbatim>\<open>actionItems\<close> is an
  array, the response had an array of as many items there, and every returned item has a
  truthy (hence non-empty) priority, \<^verbatim>\<open>Medium\<close> where the response's was missing or falsy and
  the response's own otherwise, and a due date that is defined: the empty string where the
  response had none, the response's own value otherwise, whatever that is.
\<close>

theorem accepted_items_filled:
  assumes "summarizeTranscript ai t u = Inr r"
    and "getProp r ''actionItems'' = Some (JArr items ps)"
  shows "\<exists>j items0. ai t u = Parsed j \<and> getProp j ''actionItems'' = Some (JArr items0 ps)
           \<and> list_all2 (\<lambda>orig item.
                 truthy (getProp item ''priority'')
                 \<and> getProp item ''priority''
                     = (if truthy (getProp orig ''priority'') then getProp orig ''priority''
                        else Some (JStr ''Medium''))
                 \<and> getProp item ''dueDate''
                     = (case getProp orig ''dueDate'' of
                          None \<Rightarrow> Some (JStr []) | Some d \<Rightarrow> Some d)) items0 items"
proof -
  from assms(1) obtain j where j: "ai t u = Parsed j" and a: "applyFallbacks j = Some r"
    by (auto simp: summarizeTranscript_Inr)
  from a obtain r1 where f: "fillActionItems j = Some r1" and b: "fillBreakdown r1 = Some r"
    by (auto simp: applyFallbacks_def split: if_splits option.splits)
  from b assms(2) have "getProp r1 ''actionItems'' = Some (JArr items ps)"
    by (simp add: fillBreakdown_actionItems)
  with f obtain items0 where g: "getProp j ''actionItems'' = Some (JArr items0 ps)"
    and l: "list_all2 (\<lambda>orig item. fillItem orig = Some item) items0 items"
    by (blast dest: fillActionItems_Some)
  from l have "list_all2 (\<lambda>orig item.
                 truthy (getProp item ''priority'')
                 \<and> getProp item ''priority''
                     = (if truthy (getProp orig ''priority'') then getProp orig ''priority''
                        else Some (JStr ''Medium''))
                 \<and> getProp item ''dueDate''
                     = (case getProp orig ''dueDate'' of
                          None \<Rightarrow> Some (JStr []) | Some d \<Rightarrow> Some d)) items0 items"
    by (rule list_all2_mono) (simp add: fillItem_Some)
  with j g show ?thesis by blast
qed


theorem accepted_items_filled_witness:
  "summarizeTranscript sparseReply [] []
     = Inr (JObj [(''actionItems'',
                     JArr [JObj [(''task'', JStr ''Ship''), (''priority'', JStr ''Medium''),
                                 (''dueDate'', JStr [])]] []),
                  (''discussionBreakdown'', JArr [] [])])
   \<and> (\<exists>items0. getProp sparseResponse ''actionItems'' = Some (JArr items0 [])
         \<and> list_all2 (\<lambda>orig item.
                 truthy (getProp item ''priority'')
                 \<and> getProp item ''priority''
                     = (if truthy (getProp orig ''priority'') then getProp orig ''priority''
                        else Some (JStr ''Medium''))
                 \<and> getProp item ''dueDate''
                     = (case getProp orig ''dueDate'' of
                          None \<Rightarrow> Some (JStr []) | Some d \<Rightarrow> Some d)) items0
               [JObj [(''task'', JStr ''Ship''), (''priority'', JStr ''Medium''),
                      (''dueDate'', JStr [])]])"
proof -
  have a: "summarizeTranscript sparseReply [] []
     = Inr (JObj [(''actionItems'',
                     JArr [JObj [(''task'', JStr ''Ship''), (''priority'', JStr ''Medium''),
                                 (''dueDate'', JStr [])]] []),
                  (''discussionBreakdown'', JArr [] [])])"
    by (simp add: sparseReply_def sparseResponse_def summarizeTranscript_def applyFallbacks_def
        fillActionItems_def fillBreakdown_def fillItem_def getProp_def)
  have b: "getProp (JObj [(''actionItems'',
                     JArr [JObj [(''task'', JStr ''Ship''), (''priority'', JStr ''Medium''),
                                 (''dueDate'', JStr [])]] []),
                  (''discussionBreakdown'', JArr [] [])]) ''actionItems''
      = Some (JArr [JObj [(''task'', JStr ''Ship''), (''priority'', JStr ''Medium''),
                                 (''dueDate'', JStr [])]] [])"
    by (simp add: getProp_def)
  from accepted_items_filled [OF a b] a show ?thesis
    by (auto simp: sparseReply_def)
qed

text \<open>
  No date check is made: a schema-complete response whose second action item is due
  \<^verbatim>\<open>tomorrow\<close> is accepted, and the item is returned with that due date.
\<close>

theorem undated_due_date_accepted:
  "conformsSchema completeResponse
   \<and> summarizeTranscript completeReply [] [] = Inr (withDefaultPriorities completeResponse)
   \<and> getProp (withDefaultPriorities completeResponse) ''actionItems''
       = Some (JArr [JObj [(''task'', JStr ''Write the report''), (''assignee'', JStr ''John''),
                           (''priority'', JStr ''Medium''), (''dueDate'', JStr [])],
                     JObj [(''task'', JStr ''Book a room''), (''assignee'', JStr ''Ana''),
                           (''priority'', JStr ''Low''), (''dueDate'', JStr ''tomorrow'')]] [])
   \<and> ''tomorrow'' \<noteq> [] \<and> \<not> isDateLiteral ''tomorrow''"
  by (simp add: completeResponse_def completeReply_def summarizeTranscript_def applyFallbacks_def
      fillActionItems_def fillBreakdown_def fillItem_def getProp_def isDateLiteral_def)

lemma isString_iff: "isString x \<longleftrightarrow> (\<exists>s. x = Some (JStr s))"
  by (cases x rule: isString.cases) auto

lemma isArrayOf_iff:
  "isArrayOf P x \<longleftrightarrow> (\<exists>xs ps. x = Some (JArr xs ps) \<and> list_all P xs)"
  by (cases "(P, x)" rule: isArrayOf.cases) auto

lemma fillItem_conforming:
  assumes "conformsActionItem item"
  shows "fillItem item = Some (mediumForEmptyPriority item)"
proof -
  from assms obtain ps where [simp]: "item = JObj ps" by (cases item) auto
  from assms obtain s d where "map_of ps ''priority'' = Some (JStr s)"
    and "map_of ps ''dueDate'' = Some (JStr d)"
    by (auto simp: isString_iff)
  then show ?thesis
    by (auto simp: fillItem_def getProp_def update_conv')
qed

lemma conformsActionItem_medium:
  "conformsActionItem item \<Longrightarrow> conformsActionItem (mediumForEmptyPriority item)"
  by (cases item) (auto simp: isString_iff update_conv')

lemma applyFallbacks_conforming:
  assumes "conformsSchema j"
  shows "applyFallbacks j = Some (withDefaultPriorities j)"
proof -
  from assms obtain ps where [simp]: "j = JObj ps" by (cases j) auto
  from assms obtain items aps where a: "map_of ps ''actionItems'' = Some (JArr items aps)"
    and all: "list_all conformsActionItem items"
    by (auto simp: isArrayOf_iff)
  from assms obtain ds dps where d: "map_of ps ''discussionBreakdown'' = Some (JArr ds dps)"
    by (auto simp: isArrayOf_iff)
  from all have "those (map fillItem items) = Some (map mediumForEmptyPriority items)"
    by (intro those_map_eq) (simp add: list_all_iff fillItem_conforming)
  with a have "fillActionItems j
      = Some (JObj (AList.update ''actionItems'' (JArr (map mediumForEmptyPriority items) aps) ps))"
    by (simp add: fillActionItems_def getProp_def)
  moreover from d have "fillBreakdown
      (JObj (AList.update ''actionItems'' (JArr (map mediumForEmptyPriority items) aps) ps))
      = Some (JObj (AList.update ''actionItems'' (JArr (map mediumForEmptyPriority items) aps) ps))"
    by (simp add: fillBreakdown_def getProp_def update_conv')
  ultimately show ?thesis using a by (simp add: applyFallbacks_def)
qed

lemma conformsSchema_withDefaultPriorities:
  assumes "conformsSchema j"
  shows "conformsSchema (withDefaultPriorities j)"
proof -
  from assms obtain ps where [simp]: "j = JObj ps" by (cases j) auto
  from assms obtain items aps where a: "map_of ps ''actionItems'' = Some (JArr items aps)"
    and all: "list_all conformsActionItem items"
    by (auto simp: isArrayOf_iff)
  from all have "list_all conformsActionItem (map mediumForEmptyPriority items)"
    by (simp add: list_all_iff conformsActionItem_medium)
  with assms a show ?thesis by (simp add: update_conv')
qed

lemma setProp_sameShape: "setProp j k v = Some j' \<Longrightarrow> sameShape j j'"
  by (cases j) auto

lemma sameShape_trans: "sameShape a b \<Longrightarrow> sameShape b c \<Longrightarrow> sameShape a c"
  by (cases "(a, b)" rule: sameShape.cases; cases c) auto

lemma sameShape_refl_iff: "sameShape j j \<longleftrightarrow> (\<exists>j'. setProp j k v = Some j')"
  by (cases j) auto

lemma getProp_Some_shape: "getProp j k = Some v \<Longrightarrow> sameShape j j"
  by (cases j) (auto simp: getProp_def)

lemma fillItem_filledFrom:
  assumes "fillItem item = Some item'"
  shows "itemFilledFrom item item'"
proof -
  from assms obtain item1 where
    p: "(if \<not> truthy (getProp item ''priority'')
         then setProp item ''priority'' (JStr ''Medium'') else Some item) = Some item1"
    and d: "(if getProp item1 ''dueDate'' = None
         then setProp item1 ''dueDate'' (JStr []) else Some item1) = Some item'"
    by (auto simp: fillItem_def split: if_splits option.splits)
  have s1: "sameShape item1 item'" "\<And>k. k \<noteq> ''dueDate'' \<Longrightarrow> getProp item' k = getProp item1 k"
    using d by (auto simp: getProp_setProp setProp_sameShape getProp_Some_shape split: if_splits)
  have s0: "sameShape item item1 \<or> item1 = item"
    "\<And>k. k \<noteq> ''priority'' \<Longrightarrow> getProp item1 k = getProp item k"
    using p by (auto simp: getProp_setProp setProp_sameShape split: if_splits)
  from s0(1) s1(1) have "sameShape item item'" by (auto intro: sameShape_trans)
  moreover from fillItem_Some [OF assms] have "getProp item' ''priority''
           = (if truthy (getProp item ''priority'') then getProp item ''priority''
              else Some (JStr ''Medium''))"
    "getProp item' ''dueDate''
           = (case getProp item ''dueDate'' of None \<Rightarrow> Some (JStr []) | Some d \<Rightarrow> Some d)"
    by simp_all
  moreover have "\<forall>k. k \<noteq> ''priority'' \<and> k \<noteq> ''dueDate'' \<longrightarrow> getProp item' k = getProp item k"
    using s0(2) s1(2) by simp
  ultimately show ?thesis by (simp add: itemFilledFrom_def)
qed

lemma applyFallbacks_onlyFills:
  assumes "applyFallbacks j = Some r"
  shows "onlyFillsApplied j r"
proof -
  from assms obtain r1 where f: "fillActionItems j = Some r1" and b: "fillBreakdown r1 = Some r"
    by (auto simp: applyFallbacks_def split: if_splits option.splits)
  have b1: "\<And>k. k \<noteq> ''discussionBreakdown'' \<Longrightarrow> getProp r k = getProp r1 k"
    and b2: "getProp r ''discussionBreakdown''
          = (if truthy (getProp r1 ''discussionBreakdown'')
             then getProp r1 ''discussionBreakdown'' else Some (JArr [] []))"
    and b3: "sameShape r1 r"
    using b by (auto simp: fillBreakdown_def getProp_setProp setProp_sameShape
        split: if_splits intro: getProp_Some_shape elim: truthy.elims)
  show ?thesis
  proof (cases "truthy (getProp j ''actionItems'')")
    case False
    with f have "r1 = j" by (simp add: fillActionItems_def)
    with False b1 b2 b3 show ?thesis by (simp add: onlyFillsApplied_def)
  next
    case True
    with f obtain items ps items' where
      g: "getProp j ''actionItems'' = Some (JArr items ps)"
      and th: "those (map fillItem items) = Some items'"
      and sp: "setProp j ''actionItems'' (JArr items' ps) = Some r1"
      by (auto simp: fillActionItems_def Let_def split: option.splits json.splits)
    from th have "list_all2 (\<lambda>orig item. fillItem orig = Some item) items items'"
      by (rule those_map_Some)
    then have l: "list_all2 itemFilledFrom items items'"
      by (rule list_all2_mono) (simp add: fillItem_filledFrom)
    from sp have a1: "\<And>k. k \<noteq> ''actionItems'' \<Longrightarrow> getProp r1 k = getProp j k"
      and a2: "getProp r1 ''actionItems'' = Some (JArr items' ps)"
      and a3: "sameShape j r1"
      by (simp_all add: getProp_setProp setProp_sameShape)
    from a3 b3 have "sameShape j r" by (rule sameShape_trans)
    moreover from a1 b2 have "getProp r ''discussionBreakdown''
          = (if truthy (getProp j ''discussionBreakdown'')
             then getProp j ''discussionBreakdown'' else Some (JArr [] []))"
      by simp
    moreover from a2 b1 have "getProp r ''actionItems'' = Some (JArr items' ps)" by simp
    moreover from a1 b1 have "\<forall>k. k \<noteq> ''actionItems'' \<and> k \<noteq> ''discussionBreakdown'' \<longrightarrow>
             getProp r k = getProp j k"
      by simp
    ultimately show ?thesis using True g l by (auto simp: onlyFillsApplied_def)
  qed
qed


lemma optionalString_iff: "optionalString x \<longleftrightarrow> x = None \<or> (\<exists>s. x = Some (JStr s))"
  by (cases x rule: optionalString.cases) auto

lemma fillItem_completeButFills:
  assumes "completeButFillsItem item"
  shows "fillItem item = Some (defaultDueDate (defaultPriority item))"
    and "conformsActionItem (defaultDueDate (defaultPriority item))"
proof -
  from assms obtain ps where [simp]: "item = JObj ps" by (cases item) auto
  from assms have p: "map_of ps ''priority'' = None \<or> (\<exists>s. map_of ps ''priority'' = Some (JStr s))"
    and d: "map_of ps ''dueDate'' = None \<or> (\<exists>s. map_of ps ''dueDate'' = Some (JStr s))"
    and t: "isString (map_of ps ''task'')" "isString (map_of ps ''assignee'')"
    by (auto simp: optionalString_iff)
  from p d show "fillItem item = Some (defaultDueDate (defaultPriority item))"
    by (auto simp: fillItem_def getProp_def update_conv')
  from p d t show "conformsActionItem (defaultDueDate (defaultPriority item))"
    by (auto simp: isString_iff update_conv')
qed

lemma applyFallbacks_completeButFills:
  assumes "completeButFills j"
  shows "applyFallbacks j = Some (withDefaults j)"
    and "conformsSchema (withDefaults j)"
proof -
  from assms obtain ps where [simp]: "j = JObj ps" by (cases j) auto
  from assms obtain items aps where a: "map_of ps ''actionItems'' = Some (JArr items aps)"
    and all: "list_all completeButFillsItem items"
    by (auto simp: isArrayOf_iff)
  from assms have d: "map_of ps ''discussionBreakdown'' = None
      \<or> (\<exists>ds dps. map_of ps ''discussionBreakdown'' = Some (JArr ds dps)
            \<and> list_all conformsDiscussion ds)"
    by (auto simp: isArrayOf_iff)
  from assms have rest: "isString (map_of ps ''title'')" "isString (map_of ps ''shortSummary'')"
    "isStringArray (map_of ps ''detailedSummary'')"
    by simp_all
  define items' where "items' = map (\<lambda>item. defaultDueDate (defaultPriority item)) items"
  define ps1 where "ps1 = AList.update ''actionItems'' (JArr items' aps) ps"
  from all have "those (map fillItem items) = Some items'"
    unfolding items'_def by (intro those_map_eq) (simp add: list_all_iff fillItem_completeButFills)
  with a have f: "fillActionItems j = Some (JObj ps1)"
    by (simp add: fillActionItems_def getProp_def ps1_def)
  from a have di: "defaultItems j = JObj ps1" by (simp add: ps1_def items'_def)
  have m: "map_of ps1 ''discussionBreakdown'' = map_of ps ''discussionBreakdown''"
    by (simp add: ps1_def update_conv')
  from d m have "fillBreakdown (JObj ps1) = Some (defaultBreakdown (JObj ps1))"
    by (auto simp: fillBreakdown_def getProp_def)
  with f di show "applyFallbacks j = Some (withDefaults j)"
    by (simp add: applyFallbacks_def withDefaults_def)
  from all have "list_all conformsActionItem items'"
    by (simp add: items'_def list_all_iff fillItem_completeButFills)
  then have c1: "isArrayOf conformsActionItem (map_of ps1 ''actionItems'')"
    by (simp add: ps1_def update_conv')
  have c2: "map_of ps1 k = map_of ps k" if "k \<noteq> ''actionItems''" for k
    using that by (simp add: ps1_def update_conv')
  have w: "withDefaults j = defaultBreakdown (JObj ps1)"
    by (simp only: withDefaults_def di)
  from d show "conformsSchema (withDefaults j)"
  proof
    assume "map_of ps ''discussionBreakdown'' = None"
    with rest c1 c2 show ?thesis unfolding w by (simp add: update_conv')
  next
    assume "\<exists>ds dps. map_of ps ''discussionBreakdown'' = Some (JArr ds dps)
            \<and> list_all conformsDiscussion ds"
    with rest c1 c2 show ?thesis unfolding w by auto
  qed
qed

text \<open>
  C3, as the code has it. The operation fails with the one summarization error when the
  request is rejected, the response has no text or is no JSON; every failure is that
  error. To a response that is schema-complete but for a missing priority, due date or
  discussion breakdown, exactly the three default fills are made (an empty priority counts
  as missing) and the result conforms to the schema; a response that conforms already is
  returned with empty priorities replaced and nothing else changed. Whatever is returned
  differs from the response by those fills alone: every other property of the value and
  of its action items is the response's. The schema itself is not checked.
\<close>

theorem summarizeTranscript_failures_and_fills:
  "(ai t u \<in> {Rejected, NoText, Malformed} \<longrightarrow> summarizeTranscript ai t u = Inl summarizationError)
   \<and> (\<forall>e. summarizeTranscript ai t u = Inl e \<longrightarrow> e = summarizationError)
   \<and> (\<forall>j. ai t u = Parsed j \<and> completeButFills j \<longrightarrow>
         summarizeTranscript ai t u = Inr (withDefaults j)
         \<and> conformsSchema (withDefaults j))
   \<and> (\<forall>j. ai t u = Parsed j \<and> conformsSchema j \<longrightarrow>
         summarizeTranscript ai t u = Inr (withDefaultPriorities j)
         \<and> conformsSchema (withDefaultPriorities j))
   \<and> (\<forall>j r. ai t u = Parsed j \<and> summarizeTranscript ai t u = Inr r \<longrightarrow>
         onlyFillsApplied j r)"
proof (intro conjI allI impI)
  assume "ai t u \<in> {Rejected, NoText, Malformed}"
  then show "summarizeTranscript ai t u = Inl summarizationError"
    by (auto simp: summarizeTranscript_def)
next
  fix e assume "summarizeTranscript ai t u = Inl e"
  then show "e = summarizationError" by (rule summarizeTranscript_Inl)
next
  fix j assume "ai t u = Parsed j \<and> completeButFills j"
  then show "summarizeTranscript ai t u = Inr (withDefaults j)"
    by (simp add: summarizeTranscript_def applyFallbacks_completeButFills)
next
  fix j assume "ai t u = Parsed j \<and> completeButFills j"
  then show "conformsSchema (withDefaults j)"
    by (simp add: applyFallbacks_completeButFills)
next
  fix j assume "ai t u = Parsed j \<and> conformsSchema j"
  then show "summarizeTranscript ai t u = Inr (withDefaultPriorities j)"
    by (simp add: summarizeTranscript_def applyFallbacks_conforming)
next
  fix j assume "ai t u = Parsed j \<and> conformsSchema j"
  then show "conformsSchema (withDefaultPriorities j)"
    by (simp add: conformsSchema_withDefaultPriorities)
next
  fix j r assume "ai t u = Parsed j \<and> summarizeTranscript ai t u = Inr r"
  then have "applyFallbacks j = Some r"
    by (auto simp: summarizeTranscript_def split: option.splits)
  then show "onlyFillsApplied j r" by (rule applyFallbacks_onlyFills)
qed

theorem summarizeTranscript_failures_and_fills_witness:
  "summarizeTranscript networkDown [] [] = Inl summarizationError
   \<and> completeButFills unfilledResponse
   \<and> summarizeTranscript unfilledReply [] [] = Inr filledResponse
   \<and> conformsSchema filledResponse
   \<and> onlyFillsApplied unfilledResponse filledResponse
   \<and> conformsSchema completeResponse
   \<and> summarizeTranscript completeReply [] [] = Inr (withDefaultPriorities completeResponse)"
proof -
  have "networkDown [] [] \<in> {Rejected, NoText, Malformed}"
    by (simp add: networkDown_def)
  with summarizeTranscript_failures_and_fills [of networkDown "[]" "[]"]
  have a: "summarizeTranscript networkDown [] [] = Inl summarizationError" by blast
  have u: "completeButFills unfilledResponse"
    by (simp add: unfilledResponse_def)
  have w: "withDefaults unfilledResponse = filledResponse"
    by (simp add: withDefaults_def unfilledResponse_def filledResponse_def)
  have p: "unfilledReply [] [] = Parsed unfilledResponse" by (simp add: unfilledReply_def)
  from summarizeTranscript_failures_and_fills [of unfilledReply "[]" "[]"] p u
  have b: "summarizeTranscript unfilledReply [] [] = Inr filledResponse"
    "conformsSchema filledResponse"
    unfolding w [symmetric] by blast+
  from summarizeTranscript_failures_and_fills [of unfilledReply "[]" "[]"] p b(1)
  have f: "onlyFillsApplied unfilledResponse filledResponse" by blast
  have c: "conformsSchema completeResponse"
    by (simp add: completeResponse_def)
  from c summarizeTranscript_failures_and_fills [of completeReply "[]" "[]"]
  have d: "summarizeTranscript completeReply [] [] = Inr (withDefaultPriorities completeResponse)"
    by (simp add: completeReply_def)
  from a u b f c d show ?thesis by (intro conjI)
qed

text \<open>
  No schema check is made: the response \<^verbatim>\<open>{}\<close> has none of the required properties and is
  returned, with an empty discussion breakdown added.
\<close>

theorem schema_violation_accepted:
  "\<not> conformsSchema (JObj [])
   \<and> summarizeTranscript emptyObjectReply [] [] = Inr (JObj [(''discussionBreakdown'', JArr [] [])])"
  by (simp add: summarizeTranscript_def emptyObjectReply_def applyFallbacks_def
      fillActionItems_def fillBreakdown_def getProp_def)

subsection \<open>Playback\<close>




lemma sample_bounds: "- 1 \<le> real_of_int (sint (w :: 16 word)) / 32768 \<and> real_of_int (sint w) / 32768 < 1"
proof -
  define x where "x = real_of_int (sint w)"
  have "- 32768 \<le> sint w" using sint_ge [of w] by simp
  then have "real_of_int (- 32768) \<le> x" unfolding x_def by (simp only: of_int_le_iff)
  moreover have "sint w < 32768" using sint_lt [of w] by simp
  then have "x < real_of_int 32768" unfolding x_def by (simp only: of_int_less_iff)
  ultimately have "- 1 \<le> x / 32768 \<and> x / 32768 < 1" by simp
  then show ?thesis unfolding x_def .
qed

lemma length_int16Array: "length (int16Array data) = length data div 2"
  by (induction data rule: int16Array.induct) simp_all

text \<open>
  C8. Whatever the bytes, the buffer's channels hold only samples between -1 and 1 (when
  the decoder throws, nothing is written). For the one channel at 24 kHz that the player
  asks for, the decoder throws on an odd number of bytes and on what the context refuses,
  and otherwise writes, for every pair of bytes read as a signed 16-bit integer, that
  integer divided by 32768.
\<close>

theorem decoded_samples_in_unit_range:
  "(case decodeAudioData supported data sampleRate numChannels of
      Inl e \<Rightarrow> True
    | Inr buffer \<Rightarrow>
        length buffer = numChannels
        \<and> list_all (\<lambda>channelData.
             length channelData = length data div 2 div numChannels
             \<and> list_all (\<lambda>x. - 1 \<le> x \<and> x \<le> 1) channelData) buffer)
   \<and> decodeAudioData supported data 24000 1
       = (if odd (length data) then Inl RangeError
          else if data = [] \<or> \<not> supported 1 24000 then Inl NotSupportedError
          else Inr [map (\<lambda>s. real_of_int (sint s) / 32768) (int16Array data)])"
proof
  show "case decodeAudioData supported data sampleRate numChannels of
      Inl e \<Rightarrow> True
    | Inr buffer \<Rightarrow>
        length buffer = numChannels
        \<and> list_all (\<lambda>channelData.
             length channelData = length data div 2 div numChannels
             \<and> list_all (\<lambda>x. - 1 \<le> x \<and> x \<le> 1) channelData) buffer"
    using sample_bounds
    by (auto simp: decodeAudioData_def Let_def list_all_iff length_int16Array less_imp_le)
next
  have "map (\<lambda>i. real_of_int (sint (int16Array data ! i)) / 32768) [0..<length (int16Array data)]
      = map (\<lambda>s. real_of_int (sint s) / 32768) (int16Array data)"
    by (rule nth_equalityI) simp_all
  moreover have "even (length data) \<Longrightarrow> (length (int16Array data) = 0) = (data = [])"
    by (auto simp: length_int16Array elim!: evenE)
  ultimately show "decodeAudioData supported data 24000 1
       = (if odd (length data) then Inl RangeError
          else if data = [] \<or> \<not> supported 1 24000 then Inl NotSupportedError
          else Inr [map (\<lambda>s. real_of_int (sint s) / 32768) (int16Array data)])"
    by (simp add: decodeAudioData_def Let_def)
qed


theorem decoded_samples_in_unit_range_witness:
  "decodeAudioData anyBuffer [0x00, 0x80, 0xFF, 0x7F] 24000 1 = Inr [[- 1, 32767 / 32768]]"
proof -
  have "int16Array [0x00, 0x80, 0xFF, 0x7F] = [0x8000, 0x7FFF]"
    by (simp add: word_cat_eq)
  moreover have "sint (0x8000 :: 16 word) = - 32768" "sint (0x7FFF :: 16 word) = 32767"
    by simp_all
  ultimately show ?thesis
    using decoded_samples_in_unit_range
      [where supported = anyBuffer and data = "[0x00, 0x80, 0xFF, 0x7F]"]
    by (simp add: anyBuffer_def)
qed

lemma generateSpeech_Inl: "generateSpeech service text = Inl e \<Longrightarrow> e = speechError"
  by (auto simp: generateSpeech_def split: speech_reply.splits option.splits if_splits)

lemma finish_not_loading: "audioState (handleToggleAudio_finish env text st) \<noteq> Loading"
  by (simp add: handleToggleAudio_finish_def split: prod.splits sum.splits)

lemma toggle_not_loading:
  "captured \<noteq> Loading \<Longrightarrow> audioState (fst (handleToggleAudio env captured text st)) \<noteq> Loading"
  by (auto simp: handleToggleAudio_def handleToggleAudio_start_def finish_not_loading
      split: list.splits)

lemma finish_failure:
  assumes "snd (prepareAudio env text st) = Inl err"
  shows "handleToggleAudio_finish env text st
     = (fst (prepareAudio env text st))
         \<lparr>ttsError := Some (case err of ErrorObj message \<Rightarrow> message
                                     | NonError \<Rightarrow> ''Failed to generate audio.''),
          audioState := Idle\<rparr>"
proof -
  from assms obtain st1 where "prepareAudio env text st = (st1, Inl err)"
    by (cases "prepareAudio env text st") auto
  then show ?thesis by (simp add: handleToggleAudio_finish_def)
qed

lemma prepare_speech_failure:
  "generateSpeech (tts env) text = Inl e \<Longrightarrow> prepareAudio env text st = (st, Inl speechError)"
  by (frule generateSpeech_Inl) (simp add: prepareAudio_def)

lemma prepare_decode_failure:
  assumes "generateSpeech (tts env) text = Inr base64"
    and "audioContextRef st \<or> contextCreation env = None" and "contextResume env = None"
  shows "decode (atob env) base64 = Inl e \<Longrightarrow> snd (prepareAudio env text st) = Inl e"
    and "decode (atob env) base64 = Inr bytes \<Longrightarrow>
         decodeAudioData (supports env) bytes 24000 1 = Inl d \<Longrightarrow>
         snd (prepareAudio env text st) = Inl (ErrorObj (errorMessage env d))"
  using assms by (auto simp: prepareAudio_def Let_def)

text \<open>
  C7. When the handler resumes, the state is never \<^verbatim>\<open>loading\<close>, and a toggle whose
  handler was made outside \<^verbatim>\<open>loading\<close> never ends in it. Every exception of the attempt sets the error text
  to the exception's message (a fixed text for a thrown value that is no \<^verbatim>\<open>Error\<close>) and the
  state to \<^verbatim>\<open>idle\<close>; the text is rendered unless the message is empty. A failed synthesis
  is such an exception, with the fixed message of \<^verbatim>\<open>generateSpeech\<close>, and is always
  rendered; so are a failure of \<^verbatim>\<open>atob\<close> and a failure of the decoder, with the messages
  of the browser.
\<close>

theorem tts_failure_returns_to_idle:
  "audioState (handleToggleAudio_finish env text st) \<noteq> Loading
   \<and> (captured \<noteq> Loading \<longrightarrow>
        audioState (fst (handleToggleAudio env captured text st)) \<noteq> Loading)
   \<and> (snd (prepareAudio env text st) = Inl err \<longrightarrow>
        audioState (handleToggleAudio_finish env text st) = Idle
        \<and> ttsError (handleToggleAudio_finish env text st)
            = Some (case err of ErrorObj message \<Rightarrow> message
                               | NonError \<Rightarrow> ''Failed to generate audio.'')
        \<and> (err \<noteq> ErrorObj [] \<longrightarrow> ttsErrorShown (handleToggleAudio_finish env text st)))
   \<and> (generateSpeech (tts env) text = Inl e \<longrightarrow>
        handleToggleAudio_finish env text st
          = st\<lparr>ttsError := Some ''Failed to generate speech. Please try again.'',
               audioState := Idle\<rparr>
        \<and> ttsErrorShown (handleToggleAudio_finish env text st))
   \<and> (generateSpeech (tts env) text = Inr base64
        \<and> (audioContextRef st \<or> contextCreation env = None) \<and> contextResume env = None \<longrightarrow>
        (decode (atob env) base64 = Inl e \<longrightarrow> snd (prepareAudio env text st) = Inl e)
        \<and> (decode (atob env) base64 = Inr bytes
             \<and> decodeAudioData (supports env) bytes 24000 1 = Inl d \<longrightarrow>
             snd (prepareAudio env text st) = Inl (ErrorObj (errorMessage env d))))"
proof -
  have a: "snd (prepareAudio env text st) = Inl err \<longrightarrow>
        audioState (handleToggleAudio_finish env text st) = Idle
        \<and> ttsError (handleToggleAudio_finish env text st)
            = Some (case err of ErrorObj message \<Rightarrow> message
                               | NonError \<Rightarrow> ''Failed to generate audio.'')
        \<and> (err \<noteq> ErrorObj [] \<longrightarrow> ttsErrorShown (handleToggleAudio_finish env text st))"
    by (cases err) (auto simp: finish_failure ttsErrorShown_def)
  have b: "generateSpeech (tts env) text = Inl e \<longrightarrow>
        handleToggleAudio_finish env text st
          = st\<lparr>ttsError := Some ''Failed to generate speech. Please try again.'',
               audioState := Idle\<rparr>
        \<and> ttsErrorShown (handleToggleAudio_finish env text st)"
    by (auto simp: handleToggleAudio_finish_def prepare_speech_failure speechError_def
        ttsErrorShown_def)
  have c: "generateSpeech (tts env) text = Inr base64
        \<and> (audioContextRef st \<or> contextCreation env = None) \<and> contextResume env = None \<longrightarrow>
        (decode (atob env) base64 = Inl e \<longrightarrow> snd (prepareAudio env text st) = Inl e)
        \<and> (decode (atob env) base64 = Inr bytes
             \<and> decodeAudioData (supports env) bytes 24000 1 = Inl d \<longrightarrow>
             snd (prepareAudio env text st) = Inl (ErrorObj (errorMessage env d)))"
    using prepare_decode_failure [of env "text" base64 st] by blast
  from a b c finish_not_loading [of env "text" st] toggle_not_loading [of captured env "text" st]
  show ?thesis by blast
qed

theorem tts_failure_returns_to_idle_witness:
  "handleToggleAudio (browser serviceDown) Idle ''Summary: a'' idlePlayback
     = (idlePlayback\<lparr>ttsError := Some ''Failed to generate speech. Please try again.''\<rparr>,
        [''Summary: a''])
   \<and> handleToggleAudio (browser threeBytes) Idle ''Summary: a'' idlePlayback
     = (idlePlayback\<lparr>ttsError := Some ''byte length of Int16Array should be a multiple of 2'',
                      audioContextRef := True\<rparr>,
        [''Summary: a''])"
proof -
  define loading where "loading = idlePlayback\<lparr>audioState := Loading, ttsError := None\<rparr>"
  have start: "handleToggleAudio env Idle ''Summary: a'' idlePlayback
      = (handleToggleAudio_finish env ''Summary: a'' loading, [''Summary: a''])" for env
    by (simp add: handleToggleAudio_def handleToggleAudio_start_def idlePlayback_def loading_def)
  have g: "generateSpeech (tts (browser serviceDown)) ''Summary: a'' = Inl speechError"
    by (simp add: generateSpeech_def browser_def serviceDown_def)
  from tts_failure_returns_to_idle
    [of "browser serviceDown" "''Summary: a''" loading _ _ speechError] g
  have "handleToggleAudio_finish (browser serviceDown) ''Summary: a'' loading
      = loading\<lparr>ttsError := Some ''Failed to generate speech. Please try again.'',
                  audioState := Idle\<rparr>"
    by blast
  then have a: "handleToggleAudio (browser serviceDown) Idle ''Summary: a'' idlePlayback
     = (idlePlayback\<lparr>ttsError := Some ''Failed to generate speech. Please try again.''\<rparr>,
        [''Summary: a''])"
    unfolding start by (simp add: loading_def idlePlayback_def)
  have "handleToggleAudio_finish (browser threeBytes) ''Summary: a'' loading
      = idlePlayback\<lparr>ttsError := Some ''byte length of Int16Array should be a multiple of 2'',
                     audioContextRef := True\<rparr>"
    by (simp add: handleToggleAudio_finish_def prepareAudio_def generateSpeech_def browser_def
        threeBytes_def decode_def sampleAtob_def decodeAudioData_def sampleMessage_def
        idlePlayback_def loading_def)
  then have b: "handleToggleAudio (browser threeBytes) Idle ''Summary: a'' idlePlayback
     = (idlePlayback\<lparr>ttsError := Some ''byte length of Int16Array should be a multiple of 2'',
                      audioContextRef := True\<rparr>,
        [''Summary: a''])"
    unfolding start by simp
  from a b show ?thesis by simp
qed

subsection \<open>Due dates\<close>

lemma div_lower: "0 < k \<Longrightarrow> x - (k - 1) \<le> k * (x div k)" for x k :: int
proof -
  assume k: "0 < k"
  have "x = k * (x div k) + x mod k" by simp
  moreover from k have "x mod k < k" by simp
  ultimately show ?thesis by linarith
qed

lemma div_upper: "0 < k \<Longrightarrow> k * (x div k) \<le> x" for x k :: int
proof -
  assume k: "0 < k"
  have "x = k * (x div k) + x mod k" by simp
  moreover from k have "0 \<le> x mod k" by simp
  ultimately show ?thesis by linarith
qed

text \<open>Day numbers of years, against the mean length of a year, 146097 / 400 days.\<close>

lemma DayFromYear_lower: "146097 * y - 287811596 \<le> 400 * DayFromYear y"
proof -
  define a where "a = (y - 1969) div 4"
  define b where "b = (y - 1901) div 100"
  define c where "c = (y - 1601) div 400"
  have "y - 1972 \<le> 4 * a" unfolding a_def using div_lower [of 4 "y - 1969"] by simp
  moreover have "100 * b \<le> y - 1901" unfolding b_def using div_upper [of 100 "y - 1901"] by simp
  moreover have "y - 2000 \<le> 400 * c" unfolding c_def using div_lower [of 400 "y - 1601"] by simp
  moreover have "DayFromYear y = 365 * y - 719050 + a - b + c"
    by (simp add: DayFromYear_def a_def b_def c_def)
  ultimately show ?thesis by linarith
qed

lemma DayFromYear_upper: "400 * DayFromYear y \<le> 146097 * y - 287810501"
proof -
  define a where "a = (y - 1969) div 4"
  define b where "b = (y - 1901) div 100"
  define c where "c = (y - 1601) div 400"
  have "4 * a \<le> y - 1969" unfolding a_def using div_upper [of 4 "y - 1969"] by simp
  moreover have "y - 2000 \<le> 100 * b" unfolding b_def using div_lower [of 100 "y - 1901"] by simp
  moreover have "400 * c \<le> y - 1601" unfolding c_def using div_upper [of 400 "y - 1601"] by simp
  moreover have "DayFromYear y = 365 * y - 719050 + a - b + c"
    by (simp add: DayFromYear_def a_def b_def c_def)
  ultimately show ?thesis by linarith
qed

lemma DayFromYear_strict_mono: "y < y' \<Longrightarrow> DayFromYear y < DayFromYear y'"
proof -
  assume "y < y'"
  define p where "p = DayFromYear y"
  define q where "q = DayFromYear y'"
  from DayFromYear_upper [of y] have "400 * p \<le> 146097 * y - 287810501" by (simp only: p_def)
  moreover from DayFromYear_lower [of y'] have "146097 * y' - 287811596 \<le> 400 * q"
    by (simp only: q_def)
  moreover note \<open>y < y'\<close>
  ultimately have "p < q" by linarith
  then show ?thesis by (simp only: p_def q_def)
qed


lemma div_step:
  fixes x k :: int
  assumes "0 < k"
  shows "(x + 1) div k = x div k + (if (x + 1) mod k = 0 then 1 else 0)"
proof -
  define q where "q = x div k"
  define r where "r = x mod k"
  have x: "x = k * q + r" by (simp add: q_def r_def)
  from assms have r: "0 \<le> r" "r < k" by (simp_all add: r_def)
  show ?thesis
  proof (cases "r + 1 = k")
    case True
    with x have "x + 1 = k * (q + 1)" by (simp add: algebra_simps)
    with assms show ?thesis by (simp add: q_def)
  next
    case False
    define s where "s = r + 1"
    from False r have s: "0 < s" "s < k" by (simp_all add: s_def)
    from x have "x + 1 = k * q + s" by (simp add: s_def)
    with assms have "(x + 1) div k = q + s div k" "(x + 1) mod k = s mod k"
      by simp_all
    with s show ?thesis by (simp add: q_def)
  qed
qed

lemma mod_400_100: "y mod 400 = 0 \<Longrightarrow> y mod 100 = 0" for y :: int
  using mod_mod_cancel [of 100 400 y] by simp

lemma mod_100_4: "y mod 100 = 0 \<Longrightarrow> y mod 4 = 0" for y :: int
  using mod_mod_cancel [of 4 100 y] by simp

lemma mod_shift: "(y - c) mod k = 0 \<longleftrightarrow> y mod k = 0" if "c mod k = 0" for y c k :: int
  using that by (metis diff_zero mod_diff_right_eq)

lemma DayFromYear_Suc: "DayFromYear (y + 1) = DayFromYear y + DaysInYear y"
proof -
  have a: "(y + 1 - 1969) div 4 = (y - 1969) div 4 + (if y mod 4 = 0 then 1 else 0)"
    using div_step [of 4 "y - 1969"] mod_shift [of 1968 4 y] by (simp add: algebra_simps)
  have b: "(y + 1 - 1901) div 100 = (y - 1901) div 100 + (if y mod 100 = 0 then 1 else 0)"
    using div_step [of 100 "y - 1901"] mod_shift [of 1900 100 y] by (simp add: algebra_simps)
  have c: "(y + 1 - 1601) div 400 = (y - 1601) div 400 + (if y mod 400 = 0 then 1 else 0)"
    using div_step [of 400 "y - 1601"] mod_shift [of 1600 400 y] by (simp add: algebra_simps)
  show ?thesis
    unfolding DayFromYear_def DaysInYear_def a b c using mod_400_100 [of y] mod_100_4 [of y] by auto
qed


lemma YearFromDay_correct:
  "DayFromYear (YearFromDay d) \<le> d \<and> d < DayFromYear (YearFromDay d + 1)"
proof -
  define k where "k = (400 * d) div 146097"
  define y where "y = 1970 + k"
  have "146097 * k \<le> 400 * d" unfolding k_def using div_upper [of 146097 "400 * d"] by simp
  moreover have "400 * d - 146096 \<le> 146097 * k"
    unfolding k_def using div_lower [of 146097 "400 * d"] by simp
  moreover have "146097 * y = 146097 * k + 287811090" by (simp add: y_def)
  ultimately have q: "146097 * y - 287811090 \<le> 400 * d" "400 * d < 146097 * y - 287664993"
    by linarith+
  define lo where "lo = DayFromYear (y - 1)"
  define hi where "hi = DayFromYear (y + 2)"
  have "400 * lo \<le> 146097 * (y - 1) - 287810501"
    unfolding lo_def by (rule DayFromYear_upper)
  then have "400 * lo \<le> 146097 * y - 287956598" by (simp add: algebra_simps)
  with q have lo: "lo \<le> d" by linarith
  have "146097 * (y + 2) - 287811596 \<le> 400 * hi"
    unfolding hi_def by (rule DayFromYear_lower)
  then have "146097 * y - 287519402 \<le> 400 * hi" by (simp add: algebra_simps)
  with q have hi: "d < hi" by linarith
  have "YearFromDay d = (if d < DayFromYear y then y - 1
      else if DayFromYear (y + 1) \<le> d then y + 1 else y)"
    by (simp add: YearFromDay_def y_def k_def Let_def)
  moreover have "y - 1 + 1 = y" "y + 1 + 1 = y + 2" by simp_all
  ultimately show ?thesis using lo hi unfolding lo_def hi_def
    by (auto simp: add.commute [of 2 y])
qed

lemma YearFromDay_unique:
  assumes "DayFromYear y \<le> d" "d < DayFromYear (y + 1)"
  shows "YearFromDay d = y"
proof (rule ccontr)
  assume ne: "YearFromDay d \<noteq> y"
  define z where "z = YearFromDay d"
  from YearFromDay_correct [of d]
  have c: "DayFromYear z \<le> d" "d < DayFromYear (z + 1)" by (simp_all add: z_def)
  from ne consider "z + 1 \<le> y" | "y + 1 \<le> z" unfolding z_def by linarith
  then show False
  proof cases
    case 1
    then have "DayFromYear (z + 1) \<le> DayFromYear y"
      using DayFromYear_strict_mono [of "z + 1" y] by (cases "z + 1 = y") auto
    with c assms show False by linarith
  next
    case 2
    then have "DayFromYear (y + 1) \<le> DayFromYear z"
      using DayFromYear_strict_mono [of "y + 1" z] by (cases "y + 1 = z") auto
    with c assms show False by linarith
  qed
qed


lemma InLeapYear_cases: "InLeapYear y = 0 \<or> InLeapYear y = 1"
  by (simp add: InLeapYear_def)

lemma DaysInYear_InLeapYear: "DaysInYear y = 365 + InLeapYear y"
  by (simp add: InLeapYear_def DaysInYear_def)

lemma month_cases:
  "0 \<le> m \<Longrightarrow> m \<le> 11 \<Longrightarrow>
   m = 0 \<or> m = 1 \<or> m = 2 \<or> m = 3 \<or> m = 4 \<or> m = 5 \<or> m = 6 \<or> m = 7 \<or> m = 8 \<or> m = 9
   \<or> m = 10 \<or> m = (11 :: int)"
  by presburger

lemma MonthFromDayWithinYear_monthStart:
  assumes "0 \<le> m" "m \<le> 11" "1 \<le> d" "d \<le> monthStart l (m + 1) - monthStart l m" "l = 0 \<or> l = 1"
  shows "MonthFromDayWithinYear l (monthStart l m + d - 1) = m"
  using month_cases [OF assms(1,2)] assms(3,4,5)
  by (elim disjE) (simp_all add: monthStart_def MonthFromDayWithinYear_def)

lemma dayWithinYear_range:
  assumes "0 \<le> m" "m \<le> 11" "1 \<le> d" "d \<le> monthStart l (m + 1) - monthStart l m" "l = 0 \<or> l = 1"
  shows "0 \<le> monthStart l m + d - 1 \<and> monthStart l m + d - 1 < 365 + l"
  using month_cases [OF assms(1,2)] assms(3,4,5)
  by (elim disjE) (simp_all add: monthStart_def)

lemma MakeDay_month: "0 \<le> m \<Longrightarrow> m \<le> 11 \<Longrightarrow>
  MakeDay y m d = DayFromYear y + monthStart (InLeapYear y) m + d - 1"
  by (simp add: MakeDay_def)

lemma dateOfDay_MakeDay:
  assumes "0 \<le> m" "m \<le> 11" "1 \<le> d" "d \<le> DaysInMonth y m"
  shows "dateOfDay (MakeDay y m d) = (y, m, d)"
proof -
  define l where "l = InLeapYear y"
  define w where "w = monthStart l m + d - 1"
  have l: "l = 0 \<or> l = 1" unfolding l_def by (rule InLeapYear_cases)
  from assms(4) have d: "d \<le> monthStart l (m + 1) - monthStart l m"
    by (simp add: DaysInMonth_def l_def)
  from dayWithinYear_range [OF assms(1,2,3) d l] have w: "0 \<le> w" "w < 365 + l"
    by (simp_all add: w_def)
  have n: "MakeDay y m d = DayFromYear y + w"
    using assms(1,2) by (simp add: MakeDay_month w_def l_def)
  have "DayFromYear (y + 1) = DayFromYear y + 365 + l"
    by (simp add: DayFromYear_Suc DaysInYear_InLeapYear l_def)
  with w have "YearFromDay (DayFromYear y + w) = y"
    by (intro YearFromDay_unique) simp_all
  moreover have "MonthFromDayWithinYear l w = m"
    unfolding w_def by (rule MonthFromDayWithinYear_monthStart [OF assms(1,2,3) d l])
  ultimately show ?thesis
    by (simp add: n dateOfDay_def Let_def l_def [symmetric]) (simp add: w_def)
qed

lemma MonthFromDayWithinYear_range:
  "0 \<le> MonthFromDayWithinYear l w \<and> MonthFromDayWithinYear l w \<le> 11"
  by (simp add: MonthFromDayWithinYear_def)

text \<open>Setting the day of the month to the next one moves the day number by one.\<close>

lemma MakeDay_next:
  "MakeDay (YearFromTime t) (MonthFromTime t) (DateFromTime t + 1) = Day t + 1"
proof -
  obtain y m d where ymd: "dateOfDay (Day t) = (y, m, d)" by (cases "dateOfDay (Day t)") auto
  then have m: "m = MonthFromDayWithinYear (InLeapYear y) (Day t - DayFromYear y)"
    and d: "d = Day t - DayFromYear y - monthStart (InLeapYear y) m + 1"
    by (auto simp: dateOfDay_def Let_def)
  from m have "0 \<le> m" "m \<le> 11" using MonthFromDayWithinYear_range by simp_all
  then have "MakeDay y m (d + 1) = DayFromYear y + monthStart (InLeapYear y) m + (d + 1) - 1"
    by (rule MakeDay_month)
  with d have "MakeDay y m (d + 1) = Day t + 1" by simp
  with ymd show ?thesis by (simp add: YearFromTime_def MonthFromTime_def DateFromTime_def)
qed


lemma decimalValue_snoc: "decimalValue (cs @ [c]) = 10 * decimalValue cs + digitValue c"
  by (simp add: decimalValue_def)

lemma digitValue_range: "isDigit c \<Longrightarrow> 0 \<le> digitValue c \<and> digitValue c \<le> 9"
  by (auto simp: isDigit_def digitValue_def)

lemma decimalValue_range:
  "list_all isDigit cs \<Longrightarrow> 0 \<le> decimalValue cs \<and> decimalValue cs < 10 ^ length cs"
proof (induction cs rule: rev_induct)
  case Nil
  show ?case by (simp add: decimalValue_def)
next
  case (snoc c cs)
  then have "0 \<le> decimalValue cs" "decimalValue cs < 10 ^ length cs" by simp_all
  moreover from snoc have "0 \<le> digitValue c" "digitValue c \<le> 9"
    using digitValue_range [of c] by simp_all
  ultimately show ?case by (simp add: decimalValue_snoc)
qed

lemma literal_year_range:
  assumes "isDateLiteral s"
  shows "0 \<le> decimalValue (take 4 s) \<and> decimalValue (take 4 s) \<le> 9999"
proof -
  from assms have "list_all isDigit (take 4 s)" "length (take 4 s) = 4"
    by (simp_all add: isDateLiteral_def)
  with decimalValue_range [of "take 4 s"] show ?thesis by simp
qed

lemma isoDateOnly_Some:
  assumes "isoDateOnly s = Some t"
  obtains y m d where "dateOfLiteral s = (y, m, d)" "0 \<le> y" "y \<le> 9999" "0 \<le> m" "m \<le> 11"
    "1 \<le> d" "d \<le> DaysInMonth y m" "t = MakeDay y m d * msPerDay" "s \<noteq> []"
proof -
  from assms have lit: "isDateLiteral s"
    by (auto simp: isoDateOnly_def split: if_splits)
  then have "s \<noteq> []" by (auto simp: isDateLiteral_def)
  with assms lit literal_year_range [OF lit] that show ?thesis
    by (auto simp: isoDateOnly_def dateOfLiteral_def Let_def MakeDate_def split: if_splits)
qed

lemma MakeDay_bounds:
  assumes "0 \<le> y" "y \<le> 9999" "0 \<le> m" "m \<le> 11" "1 \<le> d" "d \<le> DaysInMonth y m"
  shows "- 720000 \<le> MakeDay y m d \<and> MakeDay y m d \<le> 2940000"
proof -
  define l where "l = InLeapYear y"
  define f where "f = DayFromYear y"
  have l: "l = 0 \<or> l = 1" unfolding l_def by (rule InLeapYear_cases)
  from assms(6) have d: "d \<le> monthStart l (m + 1) - monthStart l m"
    by (simp add: DaysInMonth_def l_def)
  from dayWithinYear_range [OF assms(3,4,5) d l] l
  have w: "0 \<le> monthStart l m + d - 1" "monthStart l m + d - 1 < 366" by auto
  have "146097 * y - 287811596 \<le> 400 * f" "400 * f \<le> 146097 * y - 287810501"
    unfolding f_def by (rule DayFromYear_lower, rule DayFromYear_upper)
  with assms(1,2) have "- 720000 \<le> f" "f \<le> 2939000" by linarith+
  moreover have "MakeDay y m d = f + (monthStart l m + d - 1)"
    using assms(3,4) by (simp add: MakeDay_month l_def f_def)
  ultimately show ?thesis using w by linarith
qed

lemma Day_local:
  assumes "- msPerDay < z" "z < msPerDay"
  shows "Day (n * msPerDay + z) = n + (if z < 0 then - 1 else 0)"
proof -
  have "(n * 86400000 + z) div 86400000 = n + z div 86400000" by simp
  moreover have "z div 86400000 = (if z < 0 then - 1 else 0)"
  proof (cases "z < 0")
    case True
    define q where "q = z div 86400000"
    have "86400000 * q \<le> z" unfolding q_def using div_upper [of 86400000 z] by simp
    moreover have "z - 86399999 \<le> 86400000 * q"
      unfolding q_def using div_lower [of 86400000 z] by simp
    moreover note True assms(1)
    ultimately have "q = - 1" unfolding msPerDay_def by linarith
    with True show ?thesis by (simp add: q_def)
  next
    case False
    with assms(2) show ?thesis by (simp add: msPerDay_def)
  qed
  ultimately show ?thesis by (simp add: Day_def msPerDay_def)
qed

text \<open>
  A date-only literal: the time value is midnight UTC of day \<open>n\<close>; the rendering is that
  of local day \<open>n + 1\<close> east of Greenwich and of local day \<open>n\<close> west of it.
\<close>

lemma formatDate_iso:
  assumes iso: "isoDateOnly s = Some t"
    and tz: "- msPerDay < localTZA host" "localTZA host < msPerDay"
  shows "formatDate host s
     = longDate (dateOfDay (Day t + (if localTZA host < 0 then 0 else 1)))"
proof -
  from iso obtain y m d where lit: "dateOfLiteral s = (y, m, d)"
    and r: "0 \<le> y" "y \<le> 9999" "0 \<le> m" "m \<le> 11" "1 \<le> d" "d \<le> DaysInMonth y m"
    and t: "t = MakeDay y m d * msPerDay" and ne: "s \<noteq> []"
    by (rule isoDateOnly_Some)
  define n where "n = MakeDay y m d"
  define z where "z = localTZA host"
  define lt where "lt = LocalTime host t"
  from MakeDay_bounds [OF r] have n: "- 720000 \<le> n" "n \<le> 2940000" by (simp_all add: n_def)
  have lt: "lt = n * msPerDay + z" by (simp add: lt_def LocalTime_def t n_def z_def)
  from tz have dlt: "Day lt = n + (if z < 0 then - 1 else 0)"
    unfolding lt z_def by (rule Day_local)
  have "Day t = n" using Day_local [of 0 n] by (simp add: t n_def msPerDay_def)
  have new: "newDate host s = Some t" by (simp add: newDate_def iso)
  have "MakeDate (MakeDay (YearFromTime lt) (MonthFromTime lt) (DateFromTime lt + 1))
          (TimeWithinDay lt) = (Day lt + 1) * msPerDay + lt mod msPerDay"
    by (simp add: MakeDay_next MakeDate_def TimeWithinDay_def)
  also have "\<dots> = lt + msPerDay"
    by (simp add: Day_def algebra_simps)
  finally have mk: "MakeDate (MakeDay (YearFromTime lt) (MonthFromTime lt) (DateFromTime lt + 1))
          (TimeWithinDay lt) = lt + msPerDay" .
  have utc: "UTC host (lt + msPerDay) = (n + 1) * msPerDay"
    by (simp add: UTC_def lt z_def algebra_simps)
  from n have clip: "TimeClip ((n + 1) * msPerDay) = Some ((n + 1) * msPerDay)"
    by (simp add: TimeClip_def msPerDay_def abs_le_iff)
  have set: "setDate host (Some t) (Some (DateFromTime lt + 1)) = Some ((n + 1) * msPerDay)"
    by (simp add: setDate_def Let_def lt_def [symmetric] mk utc clip)
  have "Day (LocalTime host ((n + 1) * msPerDay)) = n + 1 + (if z < 0 then - 1 else 0)"
    using Day_local [OF tz, of "n + 1"] by (simp add: LocalTime_def z_def)
  then have "toLocaleDateString host (Some ((n + 1) * msPerDay))
      = longDate (dateOfDay (n + (if z < 0 then 0 else 1)))"
    by (simp add: toLocaleDateString_def)
  with ne new set \<open>Day t = n\<close> show ?thesis
    by (simp add: formatDate_def Let_def getDate_def lt_def z_def)
qed

lemma MakeDay_nextDay:
  assumes "0 \<le> m" "m \<le> 11" "1 \<le> d" "d \<le> DaysInMonth y m"
  shows "dateOfDay (MakeDay y m d + 1) = nextDay (y, m, d)"
proof -
  define l where "l = InLeapYear y"
  have l: "l = 0 \<or> l = 1" unfolding l_def by (rule InLeapYear_cases)
  have dim: "1 \<le> DaysInMonth y m"
    using month_cases [OF assms(1,2)] l
    by (elim disjE) (simp_all add: DaysInMonth_def monthStart_def l_def [symmetric])
  consider "d < DaysInMonth y m" | "d = DaysInMonth y m" "m < 11" | "d = DaysInMonth y m" "m = 11"
    using assms by linarith
  then show ?thesis
  proof cases
    case 1
    have "MakeDay y m d + 1 = MakeDay y m (d + 1)"
      using assms(1,2) by (simp add: MakeDay_month)
    moreover from 1 assms have "dateOfDay (MakeDay y m (d + 1)) = (y, m, d + 1)"
      by (intro dateOfDay_MakeDay) simp_all
    ultimately show ?thesis using 1 by (simp add: nextDay_def)
  next
    case 2
    then have "MakeDay y m d + 1 = MakeDay y (m + 1) 1"
      using assms(1,2) by (simp add: MakeDay_month DaysInMonth_def)
    moreover have "1 \<le> DaysInMonth y (m + 1)"
      using month_cases [OF assms(1,2)] l 2(2)
      by (elim disjE) (simp_all add: DaysInMonth_def monthStart_def l_def [symmetric])
    with 2 assms have "dateOfDay (MakeDay y (m + 1) 1) = (y, m + 1, 1)"
      by (intro dateOfDay_MakeDay) simp_all
    ultimately show ?thesis using 2 by (simp add: nextDay_def)
  next
    case 3
    then have "MakeDay y m d + 1 = DayFromYear y + 365 + l"
      by (simp add: MakeDay_month DaysInMonth_def monthStart_def l_def)
    also have "\<dots> = DayFromYear (y + 1)"
      by (simp add: DayFromYear_Suc DaysInYear_InLeapYear l_def)
    also have "\<dots> = MakeDay (y + 1) 0 1"
      by (simp add: MakeDay_month monthStart_def)
    finally have "MakeDay y m d + 1 = MakeDay (y + 1) 0 1" .
    moreover have "dateOfDay (MakeDay (y + 1) 0 1) = (y + 1, 0, 1)"
      by (intro dateOfDay_MakeDay) (simp_all add: DaysInMonth_def monthStart_def)
    ultimately show ?thesis using 3 by (simp add: nextDay_def)
  qed
qed

lemma formatDate_literal:
  assumes iso: "isoDateOnly s \<noteq> None"
    and tz: "- msPerDay < localTZA host" "localTZA host < msPerDay"
  shows "formatDate host s
     = longDate (if localTZA host < 0 then dateOfLiteral s else nextDay (dateOfLiteral s))"
proof -
  from iso obtain t where t: "isoDateOnly s = Some t" by auto
  then obtain y m d where lit: "dateOfLiteral s = (y, m, d)"
    and r: "0 \<le> m" "m \<le> 11" "1 \<le> d" "d \<le> DaysInMonth y m"
    and tt: "t = MakeDay y m d * msPerDay"
    by (rule isoDateOnly_Some)
  have "Day t = MakeDay y m d" using Day_local [of 0 "MakeDay y m d"] by (simp add: tt msPerDay_def)
  with formatDate_iso [OF t tz] dateOfDay_MakeDay [OF r] MakeDay_nextDay [OF r] lit
  show ?thesis by simp
qed



lemma iso_sample: "isoDateOnly ''2024-03-15'' = Some 1710460800000"
  by (simp add: isoDateOnly_def isDateLiteral_def isDigit_def decimalValue_def digitValue_def
      DaysInMonth_def monthStart_def InLeapYear_def DaysInYear_def MakeDate_def MakeDay_def
      DayFromYear_def msPerDay_def)

lemma literal_sample: "dateOfLiteral ''2024-03-15'' = (2024, 2, 15)"
  by (simp add: dateOfLiteral_def decimalValue_def digitValue_def)

lemma decimal_15: "decimal 15 = ''15''" "decimal 16 = ''16''" "decimal 2024 = ''2024''"
  by code_simp+

lemma nextDay_sample: "nextDay (2024, 2, 15) = (2024, 2, 16)"
  by (simp add: nextDay_def DaysInMonth_def monthStart_def)

text \<open>
  C10, as the code has it. The view, the exported line and the notification text show
  \<^verbatim>\<open>formatDate\<close> of the due date. An empty due date is shown as \<^verbatim>\<open>N/A\<close>. A literal
  \<^verbatim>\<open>YYYY-MM-DD\<close> of a day of the calendar is read as midnight UTC, one day is added to its
  local day of the month, and the local date is shown: where local time is at or ahead
  of UTC this is the day after the literal date, where it is behind UTC it is the literal
  date itself.
\<close>

theorem due_dates_rendered_by_formatDate:
  "formatDate host [] = ''N/A''
   \<and> dueField host item = formatDate host (dueDate item)
   \<and> exportLine host item
       = ''- [ ] '' @ task item @ '' (Assignee: '' @ assignee item @ '', Priority: ''
           @ priority item @ '', Due: '' @ formatDate host (dueDate item) @ '')''
   \<and> createNotificationText host item
       = ''Reminder: The task '' @ [CHR 0x22] @ task item @ [CHR 0x22] @ '' is assigned to ''
           @ assignee item @ ''. Priority: '' @ priority item @ ''. Due date: ''
           @ formatDate host (dueDate item) @ ''.''
   \<and> (isoDateOnly s \<noteq> None \<and> - msPerDay < localTZA host \<and> localTZA host < msPerDay \<longrightarrow>
        formatDate host s
          = longDate (if localTZA host < 0 then dateOfLiteral s else nextDay (dateOfLiteral s)))"
  by (simp add: formatDate_literal dueField_def exportLine_def createNotificationText_def)
    (simp add: formatDate_def)

theorem due_dates_rendered_by_formatDate_witness:
  "formatDate berlin ''2024-03-15'' = ''March 16, 2024''
   \<and> formatDate newYork ''2024-03-15'' = longDate (dateOfLiteral ''2024-03-15'')"
proof -
  have iso: "isoDateOnly ''2024-03-15'' \<noteq> None" by (simp add: iso_sample)
  have "- msPerDay < localTZA berlin \<and> localTZA berlin < msPerDay \<and> \<not> localTZA berlin < 0"
    by (simp add: berlin_def msPerDay_def)
  with iso due_dates_rendered_by_formatDate [of berlin _ "''2024-03-15''"]
  have "formatDate berlin ''2024-03-15'' = longDate (nextDay (dateOfLiteral ''2024-03-15''))"
    by simp
  then have a: "formatDate berlin ''2024-03-15'' = ''March 16, 2024''"
    by (simp add: literal_sample nextDay_sample longDate_def yearOfEra_def monthName_def decimal_15)
  have "- msPerDay < localTZA newYork \<and> localTZA newYork < msPerDay \<and> localTZA newYork < 0"
    by (simp add: newYork_def msPerDay_def)
  with iso due_dates_rendered_by_formatDate [of newYork _ "''2024-03-15''"]
  have "formatDate newYork ''2024-03-15'' = longDate (dateOfLiteral ''2024-03-15'')"
    by simp
  with a show ?thesis by simp
qed

text \<open>
  Four hours behind UTC, the due date \<^verbatim>\<open>2024-03-15\<close> is shown as March 15, not as the day
  after.
\<close>

theorem literal_date_shown_west_of_Greenwich:
  "formatDate newYork ''2024-03-15'' = ''March 15, 2024''
   \<and> longDate (nextDay (dateOfLiteral ''2024-03-15'')) = ''March 16, 2024''"
proof -
  have "isoDateOnly ''2024-03-15'' \<noteq> None" by (simp add: iso_sample)
  moreover have "- msPerDay < localTZA newYork" "localTZA newYork < msPerDay"
    by (simp_all add: newYork_def msPerDay_def)
  ultimately have "formatDate newYork ''2024-03-15''
      = longDate (if localTZA newYork < 0 then dateOfLiteral ''2024-03-15''
                  else nextDay (dateOfLiteral ''2024-03-15''))"
    by (rule formatDate_literal)
  then show ?thesis
    by (simp add: newYork_def literal_sample nextDay_sample longDate_def yearOfEra_def monthName_def decimal_15)
qed

end
